theory Spec2Isabelle
  imports Main "HOL-Library.Sublist"
begin

section \<open>Python strings\<close>

text \<open>
  A Python \<open>str\<close> is modelled as a \<^typ>\<open>string\<close>, read as a sequence of code points
  below 256. Every literal of the program is ASCII.
\<close>

definition lower_char :: "char \<Rightarrow> char" where
  \<comment> \<open>the lower-case mapping of one code point: A-Z, and the Latin-1 capitals (not the
      multiplication sign 215)\<close>
  "lower_char c =
     (let n = (of_char c :: nat)
      in if 65 \<le> n \<and> n \<le> 90 then char_of (n + 32)
         else if 192 \<le> n \<and> n \<le> 222 \<and> n \<noteq> 215 then char_of (n + 32)
         else c)"

definition lower :: "string \<Rightarrow> string" where
  \<comment> \<open>\<^verbatim>\<open>s.lower()\<close>\<close>
  "lower s = map lower_char s"

definition upper_char :: "char \<Rightarrow> char" where
  \<comment> \<open>upper case of an ASCII letter; other code points are left alone (the program
      capitalizes ASCII keywords only)\<close>
  "upper_char c =
     (let n = (of_char c :: nat)
      in if 97 \<le> n \<and> n \<le> 122 then char_of (n - 32) else c)"

fun capitalize :: "string \<Rightarrow> string" where
  \<comment> \<open>\<^verbatim>\<open>s.capitalize()\<close>: first character upper case, the rest lower case\<close>
  "capitalize [] = []"
| "capitalize (c # cs) = upper_char c # lower cs"

definition startswith :: "string \<Rightarrow> string \<Rightarrow> bool" where
  \<comment> \<open>\<^verbatim>\<open>s.startswith(p)\<close>\<close>
  "startswith s p = (take (length p) s = p)"

definition split1 :: "string \<Rightarrow> char \<Rightarrow> string list" where
  \<comment> \<open>\<^verbatim>\<open>s.split(c, 1)\<close> for a one-character separator: at most one split, at the
      first occurrence\<close>
  "split1 s c =
     (if c \<in> set s
      then [takeWhile (\<lambda>x. x \<noteq> c) s, tl (dropWhile (\<lambda>x. x \<noteq> c) s)]
      else [s])"

fun join :: "string \<Rightarrow> string list \<Rightarrow> string" where
  \<comment> \<open>\<^verbatim>\<open>sep.join(xs)\<close>\<close>
  "join sep [] = []"
| "join sep [x] = x"
| "join sep (x # y # ys) = x @ sep @ join sep (y # ys)"

subsection \<open>\<^verbatim>\<open>repr\<close> of a string\<close>

definition printable :: "char \<Rightarrow> bool" where
  \<comment> \<open>the code points below 256 that \<^verbatim>\<open>repr\<close> leaves as they are\<close>
  "printable c =
     (let n = (of_char c :: nat)
      in if n < 127 then 32 \<le> n else 161 \<le> n \<and> n \<noteq> 173)"

definition hex_digit :: "nat \<Rightarrow> char" where
  "hex_digit n = (if n < 10 then char_of (48 + n) else char_of (87 + n))"

definition escape_char :: "char \<Rightarrow> char \<Rightarrow> string" where
  "escape_char quote c =
     (if c = quote then [CHR 0x5C, c]
      else if c = CHR 0x5C then [CHR 0x5C, c]
      else if c = CHR 0x09 then [CHR 0x5C, CHR ''t'']
      else if c = CHR 0x0A then [CHR 0x5C, CHR ''n'']
      else if c = CHR 0x0D then [CHR 0x5C, CHR ''r'']
      else if printable c then [c]
      else [CHR 0x5C, CHR ''x'', hex_digit (of_char c div 16), hex_digit (of_char c mod 16)])"

definition repr_quote :: "string \<Rightarrow> char" where
  \<comment> \<open>single quotes, unless the text holds a single quote and no double quote\<close>
  "repr_quote s = (if CHR 0x27 \<in> set s \<and> CHR 0x22 \<notin> set s then CHR 0x22 else CHR 0x27)"

definition repr_str :: "string \<Rightarrow> string" where
  \<comment> \<open>\<^verbatim>\<open>repr(s)\<close>\<close>
  "repr_str s = [repr_quote s] @ concat (map (escape_char (repr_quote s)) s) @ [repr_quote s]"

subsection \<open>The values held by a \<^verbatim>\<open>table_info\<close> dictionary\<close>

datatype py_value = Str string | StrList "string list" | StrDict "(string \<times> string) list"

definition repr_item :: "('v \<Rightarrow> string) \<Rightarrow> string \<times> 'v \<Rightarrow> string" where
  "repr_item r kv = repr_str (fst kv) @ '': '' @ r (snd kv)"

definition repr_dict :: "('v \<Rightarrow> string) \<Rightarrow> (string \<times> 'v) list \<Rightarrow> string" where
  \<comment> \<open>\<^verbatim>\<open>repr\<close> of a dictionary, the items in insertion order\<close>
  "repr_dict r d = ''{'' @ join '', '' (map (repr_item r) d) @ ''}''"

definition repr_list :: "('v \<Rightarrow> string) \<Rightarrow> 'v list \<Rightarrow> string" where
  "repr_list r xs = ''['' @ join '', '' (map r xs) @ '']''"

fun repr_value :: "py_value \<Rightarrow> string" where
  "repr_value (Str s) = repr_str s"
| "repr_value (StrList xs) = repr_list repr_str xs"
| "repr_value (StrDict d) = repr_dict repr_str d"

fun str_value :: "py_value \<Rightarrow> string" where
  \<comment> \<open>\<^verbatim>\<open>str(v)\<close>, what an f-string inserts: a string as it is, a container by \<^verbatim>\<open>repr\<close>\<close>
  "str_value (Str s) = s"
| "str_value (StrList xs) = repr_list repr_str xs"
| "str_value (StrDict d) = repr_dict repr_str d"

section \<open>Exceptions\<close>

text \<open>
  What the program can see raised. The instances of Python's class
  \<^verbatim>\<open>Exception\<close>: a missing dictionary key, a list index out of range, a subscript
  of the wrong type, an exception of an external collaborator (warehouse client,
  reasoning engine) kept as the text that \<^verbatim>\<open>str\<close> gives for it, and such an
  exception whose own \<^verbatim>\<open>__str__\<close> raises. And the instances of
  \<^verbatim>\<open>BaseException\<close> outside the class \<^verbatim>\<open>Exception\<close> (\<^verbatim>\<open>KeyboardInterrupt\<close>,
  \<^verbatim>\<open>SystemExit\<close>, the script-control exceptions of the presentation shell), kept as
  class name and text.
\<close>

datatype error =
    KeyError string
  | IndexError
  | TypeError string
  | Raised string
  | Unprintable error
  | BaseOnly string string

fun is_Exception :: "error \<Rightarrow> bool" where
  \<comment> \<open>\<^verbatim>\<open>isinstance(e, Exception)\<close>\<close>
  "is_Exception (BaseOnly cls msg) = False"
| "is_Exception (KeyError k) = True"
| "is_Exception IndexError = True"
| "is_Exception (TypeError msg) = True"
| "is_Exception (Raised msg) = True"
| "is_Exception (Unprintable e) = True"

fun str_error :: "error \<Rightarrow> error + string" where
  \<comment> \<open>\<^verbatim>\<open>str(e)\<close>: the text, or what \<^verbatim>\<open>__str__\<close> raises\<close>
  "str_error (KeyError k) = Inr (repr_str k)"
| "str_error IndexError = Inr ''list index out of range''"
| "str_error (TypeError msg) = Inr msg"
| "str_error (Raised msg) = Inr msg"
| "str_error (Unprintable e) = Inl e"
| "str_error (BaseOnly cls msg) = Inr msg"

definition getitem :: "(string \<times> 'v) list \<Rightarrow> string \<Rightarrow> error + 'v" where
  \<comment> \<open>\<^verbatim>\<open>d[k]\<close> on a dictionary\<close>
  "getitem d k = (case map_of d k of None \<Rightarrow> Inl (KeyError k) | Some v \<Rightarrow> Inr v)"

definition contains :: "(string \<times> 'v) list \<Rightarrow> string \<Rightarrow> bool" where
  \<comment> \<open>\<^verbatim>\<open>k in d\<close> on a dictionary\<close>
  "contains d k = (k \<in> set (map fst d))"

definition list_getitem :: "'a list \<Rightarrow> nat \<Rightarrow> error + 'a" where
  \<comment> \<open>\<^verbatim>\<open>xs[i]\<close> for an index from the front\<close>
  "list_getitem xs i = (if i < length xs then Inr (xs ! i) else Inl IndexError)"

definition try_except :: "error + 'a \<Rightarrow> (error \<Rightarrow> error + 'a) \<Rightarrow> error + 'a" where
  \<comment> \<open>\<^verbatim>\<open>try: body  except Exception as e: handler\<close>. The clause takes the
      instances of \<^verbatim>\<open>Exception\<close> only, anything else goes on to the caller; what
      the handler raises goes on to the caller too\<close>
  "try_except body handler =
     (case body of
        Inl e \<Rightarrow> if is_Exception e then handler e else Inl e
      | Inr v \<Rightarrow> Inr v)"

fun value_contains :: "py_value \<Rightarrow> string \<Rightarrow> bool" where
  \<comment> \<open>\<^verbatim>\<open>k in v\<close>: a key of a dictionary, an element of a list, a substring of a string\<close>
  "value_contains (StrDict d) k = contains d k"
| "value_contains (StrList xs) k = (k \<in> set xs)"
| "value_contains (Str s) k = sublist k s"

fun value_getitem :: "py_value \<Rightarrow> string \<Rightarrow> error + py_value" where
  \<comment> \<open>\<^verbatim>\<open>v[k]\<close> with a string \<open>k\<close>\<close>
  "value_getitem (StrDict d) k = (case getitem d k of Inl e \<Rightarrow> Inl e | Inr s \<Rightarrow> Inr (Str s))"
| "value_getitem (StrList xs) k = Inl (TypeError ''list indices must be integers or slices, not str'')"
| "value_getitem (Str s) k = Inl (TypeError ''string indices must be integers'')"

section \<open>Schema catalog: \<^verbatim>\<open>DataSchemaRoadmapTool\<close>\<close>

text \<open>
  Each value of \<^verbatim>\<open>schema_map\<close> is a dictionary with the two keys
  \<^verbatim>\<open>"description"\<close> and \<^verbatim>\<open>"fields"\<close>; it is kept as a record with
  these two fields. The dictionary itself is an association list in insertion order.
\<close>

record schema_entry =
  entry_description :: string
  entry_fields :: "string list"

record DataSchemaRoadmapTool =
  name :: string
  description :: string
  schema_map :: "(string \<times> schema_entry) list"

definition DataSchemaRoadmapTool_init :: DataSchemaRoadmapTool where
  \<comment> \<open>the object after \<^verbatim>\<open>__init__\<close>\<close>
  \<open>DataSchemaRoadmapTool_init = \<lparr>
     name = ''Data Schema Roadmap'',
     description = ''Provides information about the data schema roadmap for Looker Studio visualizations'',
     schema_map = [
       (''the_pulse.reviews_forLS'', \<lparr>
          entry_description = ''Contains detailed review information'',
          entry_fields = [''id'', ''ghl_location_name'', ''ghl_location_id'', ''comments'',
            ''rating'', ''reviewer'', ''google_review_id'', ''review_added_on'',
            ''reviews_conversation'', ''is_posted_on_fb'', ''user_id'', ''review_id'',
            ''locationid'', ''review_path'', ''ai_generated_response'', ''createdAt'',
            ''updatedAt'', ''posted_on_fb'', ''posted_on_insta'', ''posted_on_other'',
            ''posted_on_twitter'', ''email'', ''five_star_rating'', ''one_to_four_star_rating'',
            ''rating_2'', ''rating_3'']\<rparr>),
       (''the_pulse.opportunities_monthly_forLS'', \<lparr>
          entry_description = ''Monthly aggregated data on sales opportunities'',
          entry_fields = [''ghl_location_id'', ''ghl_location_name'', ''opportunity_created_date'', ''Month'',
            ''Leads'', ''Qualified'', ''Retained'', ''Lost'',
            ''Signed_Cases'', ''Revenue'']\<rparr>),
       (''the_pulse.calls_monthly_forLS'', \<lparr>
          entry_description = ''Monthly aggregated call data'',
          entry_fields = [''ghl_location_id'', ''ghl_location_name'', ''call_date'', ''Month'',
            ''Total_Calls'', ''Answered_Calls'']\<rparr>),
       (''the_pulse.calls_forLS'', \<lparr>
          entry_description = ''Detailed call data'',
          entry_fields = [''ghl_location_id'', ''ghl_location_name'', ''call_date'', ''Total_Calls'',
            ''Answered_Calls'', ''Missed_Calls'']\<rparr>),
       (''the_pulse.ad_expense_data_monthly_forLS'', \<lparr>
          entry_description = ''Monthly aggregated ad expense data'',
          entry_fields = [''ghl_location_id'', ''ghl_location_name'', ''formatted_expense_monthyear'', ''Month'',
            ''ad_expense'']\<rparr>),
       (''the_pulse.ad_expense_data_forLS'', \<lparr>
          entry_description = ''Detailed ad expense data'',
          entry_fields = [''ghl_location_id'', ''ghl_location_name'', ''id'', ''ad_expense'',
            ''expense_monthyear'', ''expense_month'', ''expense_year'', ''converted_leads'',
            ''forecasted_revenue'', ''created_on'', ''updated_on'', ''formatted_expense_monthyear'']\<rparr>),
       (''the_pulse.opportunities_forLS'', \<lparr>
          entry_description = ''Detailed information on sales opportunities'',
          entry_fields = [''ghl_location_id'', ''ghl_location_name'', ''contact_id'', ''contact_email'',
            ''contact_tags'', ''opportunity_created_date'', ''opportunity_id'', ''Leads'',
            ''Qualified'', ''Retained'', ''Open_1'', ''Lost'',
            ''Signed_Cases'', ''opportunity_pipeline_name'', ''opportunity_pipeline_id'', ''opportunity_stage_name'',
            ''opportunity_stage_id'', ''opportunity_source'', ''Revenue'', ''Status'',
            ''opportunity_assigned_user'', ''Location'', ''Medium'', ''Type'']\<rparr>)
     ]\<rparr>\<close>

definition DataSchemaRoadmapTool_run ::
  "DataSchemaRoadmapTool \<Rightarrow> string \<Rightarrow> (error + string) \<times> DataSchemaRoadmapTool" where
  \<comment> \<open>\<^verbatim>\<open>_run(self, query)\<close>: the value returned (or the exception raised) and the object
      afterwards\<close>
  "DataSchemaRoadmapTool_run self query =
     (if lower query = ''list tables'' then
        (Inr (join ''\<newline>'' (map fst (schema_map self))), self)
      else if startswith (lower query) ''describe '' then
        (case list_getitem (split1 query CHR '' '') 1 of
           Inl e \<Rightarrow> (Inl e, self)
         | Inr table_name \<Rightarrow>
             if contains (schema_map self) table_name then
               (case getitem (schema_map self) table_name of
                  Inl e \<Rightarrow> (Inl e, self)
                | Inr table_info \<Rightarrow>
                    (Inr (''Table: '' @ table_name @ ''\<newline>Description: ''
                          @ entry_description table_info @ ''\<newline>Fields: ''
                          @ join '', '' (entry_fields table_info)), self))
             else
               (Inr (''Table '' @ table_name @ '' not found in the schema map.''), self))
      else
        (Inr (''Invalid query. Use '' @ [CHR 0x27] @ ''list tables'' @ [CHR 0x27]
              @ '' to see all tables or '' @ [CHR 0x27] @ ''describe [table_name]'' @ [CHR 0x27]
              @ '' for details on a specific table.''), self))"

definition table_names :: "DataSchemaRoadmapTool \<Rightarrow> string list" where
  \<comment> \<open>\<^verbatim>\<open>self.schema_map.keys()\<close>, the identifiers that the listing joins\<close>
  "table_names self = map fst (schema_map self)"

section \<open>Query executor: \<^verbatim>\<open>execute_bigquery\<close>\<close>

text \<open>
  The warehouse client is an external collaborator. \<^verbatim>\<open>client.query(q)\<close> either raises
  or gives a job; \<^verbatim>\<open>job.result()\<close> and the iteration over it either raise or yield
  the rows in the warehouse's order. A row, after \<^verbatim>\<open>dict(row)\<close>, is a dictionary from
  column name to value.
\<close>

datatype bq_value = BqNull | BqBool bool | BqInt int | BqStr string | BqOther string

type_synonym row = "(string \<times> bq_value) list"

record 'job client =
  client_query :: "string \<Rightarrow> error + 'job"
  job_result :: "'job \<Rightarrow> error + row list"

fun str_nat :: "nat \<Rightarrow> string" where
  "str_nat n = (if n < 10 then [char_of (48 + n)] else str_nat (n div 10) @ [char_of (48 + n mod 10)])"

definition str_int :: "int \<Rightarrow> string" where
  "str_int i = (if i < 0 then ''-'' @ str_nat (nat (- i)) else str_nat (nat i))"

fun repr_bq :: "bq_value \<Rightarrow> string" where
  \<comment> \<open>\<^verbatim>\<open>repr\<close> of a cell; \<open>BqOther\<close> carries the \<^verbatim>\<open>repr\<close> text of a value of any
      other type (a date, a decimal)\<close>
  "repr_bq BqNull = ''None''"
| "repr_bq (BqBool b) = (if b then ''True'' else ''False'')"
| "repr_bq (BqInt i) = str_int i"
| "repr_bq (BqStr s) = repr_str s"
| "repr_bq (BqOther t) = t"

definition execute_bigquery :: "'job client \<Rightarrow> string \<Rightarrow> error + string" where
  "execute_bigquery client query =
     try_except
       (case client_query client query of
          Inl e \<Rightarrow> Inl e
        | Inr query_job \<Rightarrow>
            (case job_result client query_job of
               Inl e \<Rightarrow> Inl e
             | Inr results \<Rightarrow> Inr (repr_list (repr_dict repr_bq) results)))
       (\<lambda>e. case str_error e of
              Inl e' \<Rightarrow> Inl e'
            | Inr msg \<Rightarrow> Inr (''An error occurred: '' @ msg))"

section \<open>Table contract providers\<close>

text \<open>
  One class per table. Its \<^verbatim>\<open>table_info\<close> property returns a dictionary literal, kept
  as an association list in the order of the literal; \<^verbatim>\<open>_run\<close> answers a topic.
  The source defines \<^verbatim>\<open>CallsForLSTool\<close> twice; the second definition replaces the
  first and is the one modelled.
\<close>

subsection \<open>\<^verbatim>\<open>CallsForLSTool\<close>\<close>

definition CallsForLSTool_full_query :: string where
  \<open>CallsForLSTool_full_query =
     ''\<newline>'' @
     ''            CREATE OR REPLACE TABLE `the-pulse-405018.the_pulse.calls_forLS`\<newline>'' @
     ''            CLUSTER BY ghl_location_id AS\<newline>'' @
     ''            SELECT\<newline>'' @
     ''                ghl_location_id,\<newline>'' @
     ''                ghl_location_name,\<newline>'' @
     ''                PARSE_DATE('%Y-%m-%d', SUBSTR(call_started_at, 1, 10)) AS call_date,\<newline>'' @
     ''                SUM(CASE WHEN call_direction = "inbound" AND first_time = "True" THEN 1 ELSE 0 END) AS Total_Calls,\<newline>'' @
     ''                SUM(CASE WHEN call_direction = "inbound" AND first_time = "True" AND call_status = "completed" THEN 1 ELSE 0 END) AS Answered_Calls,\<newline>'' @
     ''                SUM(CASE WHEN call_direction = "inbound" AND first_time = "True" AND call_status = "no-answer" THEN 1 ELSE 0 END) AS Missed_Calls\<newline>'' @
     ''            FROM `the-pulse-405018.the_pulse.calls_bq`\<newline>'' @
     ''            GROUP BY ghl_location_id, ghl_location_name, call_started_at\<newline>'' @
     ''            ''\<close>

definition CallsForLSTool_fields :: "(string \<times> string) list" where
  \<comment> \<open>the value of the key \<^verbatim>\<open>"fields"\<close>\<close>
  \<open>CallsForLSTool_fields = [
     (''ghl_location_id'',
      ''Directly selected from the source table using: SELECT ghl_location_id''),
     (''ghl_location_name'',
      ''Directly selected from the source table using: SELECT ghl_location_name''),
     (''call_date'',
      ''Calculated using: PARSE_DATE('%Y-%m-%d', SUBSTR(call_started_at, 1, 10)) AS call_date''),
     (''Total_Calls'',
      ''Calculated using: SUM(CASE WHEN call_direction = "inbound" AND first_time = "True" THEN 1 ELSE 0 END) AS Total_Calls''),
     (''Answered_Calls'',
      ''Calculated using: SUM(CASE WHEN call_direction = "inbound" AND first_time = "True" AND call_status = "completed" THEN 1 ELSE 0 END) AS Answered_Calls''),
     (''Missed_Calls'',
      ''Calculated using: SUM(CASE WHEN call_direction = "inbound" AND first_time = "True" AND call_status = "no-answer" THEN 1 ELSE 0 END) AS Missed_Calls'')
   ]\<close>

definition CallsForLSTool_table_info :: "(string \<times> py_value) list" where
  \<open>CallsForLSTool_table_info = [
     (''name'', Str (''calls_forLS'')),
     (''description'', Str (''Provides information about call data.'')),
     (''fields'', StrDict CallsForLSTool_fields),
     (''source_table'', Str (''the-pulse-405018.the_pulse.calls_bq'')),
     (''clustering'', Str (''CLUSTER BY ghl_location_id'')),
     (''partitioning'', Str (''none'')),
     (''grouping'', Str (''GROUP BY ghl_location_id, ghl_location_name, call_started_at'')),
     (''full_query'', Str CallsForLSTool_full_query)
   ]\<close>

definition CallsForLSTool_run :: "string \<Rightarrow> error + string" where
  "CallsForLSTool_run query0 =
     (let query = lower query0 in
      if query = ''structure'' then Inr (repr_dict repr_value CallsForLSTool_table_info)
      else
        case getitem CallsForLSTool_table_info ''fields'' of
          Inl e \<Rightarrow> Inl e
        | Inr field_map \<Rightarrow>
            if value_contains field_map query then
              (case value_getitem field_map query of
                 Inl e \<Rightarrow> Inl e
               | Inr v \<Rightarrow>
                   Inr (''Field '' @ [CHR 0x27] @ query @ [CHR 0x27] @ '': '' @ str_value v))
            else if query \<in> set [''clustering'', ''partitioning'', ''grouping'', ''full_query''] then
              (case getitem CallsForLSTool_table_info query of
                 Inl e \<Rightarrow> Inl e
               | Inr v \<Rightarrow> Inr (capitalize query @ '': '' @ str_value v))
            else if query = ''source_table'' then
              (case getitem CallsForLSTool_table_info ''source_table'' of
                 Inl e \<Rightarrow> Inl e
               | Inr v \<Rightarrow> Inr (''Source Table: '' @ str_value v))
            else Inr (''No information found for query: '' @ query))"

subsection \<open>\<^verbatim>\<open>AdExpenseDataForLSTool\<close>\<close>

definition AdExpenseDataForLSTool_full_query :: string where
  \<open>AdExpenseDataForLSTool_full_query =
     ''\<newline>'' @
     ''            CREATE OR REPLACE TABLE `the-pulse-405018.the_pulse.ad_expense_data_forLS`\<newline>'' @
     ''            CLUSTER BY ghl_location_id, ghl_location_name AS\<newline>'' @
     ''            SELECT\<newline>'' @
     ''                ghl_location_id,\<newline>'' @
     ''                ghl_location_name,\<newline>'' @
     ''                id,\<newline>'' @
     ''                ad_expense,\<newline>'' @
     ''                expense_monthyear,\<newline>'' @
     ''                expense_month,\<newline>'' @
     ''                expense_year,\<newline>'' @
     ''                converted_leads,\<newline>'' @
     ''                forecasted_revenue,\<newline>'' @
     ''                created_on,\<newline>'' @
     ''                updated_on,\<newline>'' @
     ''                PARSE_DATE('%Y-%m-%d',\<newline>'' @
     ''                    CONCAT(\<newline>'' @
     ''                        RIGHT(expense_monthyear, 4),\<newline>'' @
     ''                        '-',\<newline>'' @
     ''                        LPAD(\<newline>'' @
     ''                            FORMAT_DATE('%m', PARSE_DATE('%B', LEFT(expense_monthyear, LENGTH(expense_monthyear) - 5))),\<newline>'' @
     ''                            2,\<newline>'' @
     ''                            '0'\<newline>'' @
     ''                        ),\<newline>'' @
     ''                        '-01'\<newline>'' @
     ''                    )\<newline>'' @
     ''                ) AS formatted_expense_monthyear\<newline>'' @
     ''            FROM `the-pulse-405018.the_pulse.ad_expense_data_bq`\<newline>'' @
     ''            ''\<close>

definition AdExpenseDataForLSTool_fields :: "(string \<times> string) list" where
  \<comment> \<open>the value of the key \<^verbatim>\<open>"fields"\<close>\<close>
  \<open>AdExpenseDataForLSTool_fields = [
     (''ghl_location_id'',
      ''Directly selected from the source table using: SELECT ghl_location_id''),
     (''ghl_location_name'',
      ''Directly selected from the source table using: SELECT ghl_location_name''),
     (''formatted_expense_monthyear'',
      ''Calculated using: DATE_TRUNC(expense_date, MONTH) AS formatted_expense_monthyear''),
     (''ad_expense'',
      ''Directly selected from the source table using: SELECT ad_expense'')
   ]\<close>

definition AdExpenseDataForLSTool_table_info :: "(string \<times> py_value) list" where
  \<open>AdExpenseDataForLSTool_table_info = [
     (''name'', Str (''ad_expense_data_forLS'')),
     (''description'', Str (''Provides information about ad expense data.'')),
     (''fields'', StrDict AdExpenseDataForLSTool_fields),
     (''source_table'', Str (''the-pulse-405018.the_pulse.ad_expense_data'')),
     (''partitioning'', Str (''PARTITION BY formatted_expense_monthyear'')),
     (''clustering'', Str (''CLUSTER BY ghl_location_id'')),
     (''full_query'', Str AdExpenseDataForLSTool_full_query)
   ]\<close>

definition AdExpenseDataForLSTool_run :: "string \<Rightarrow> error + string" where
  "AdExpenseDataForLSTool_run query0 =
     (let query = lower query0 in
      if query = ''structure'' then Inr (repr_dict repr_value AdExpenseDataForLSTool_table_info)
      else
        case getitem AdExpenseDataForLSTool_table_info ''fields'' of
          Inl e \<Rightarrow> Inl e
        | Inr field_map \<Rightarrow>
            if value_contains field_map query then
              (case value_getitem field_map query of
                 Inl e \<Rightarrow> Inl e
               | Inr v \<Rightarrow>
                   Inr (''Field '' @ [CHR 0x27] @ query @ [CHR 0x27] @ '': '' @ str_value v))
            else Inr (''No information found for query: '' @ query))"

subsection \<open>\<^verbatim>\<open>ReviewsForLSTool\<close>\<close>

definition ReviewsForLSTool_full_query :: string where
  \<open>ReviewsForLSTool_full_query =
     ''\<newline>'' @
     ''            CREATE OR REPLACE TABLE `the-pulse-405018.the_pulse.reviews_forLS` AS\<newline>'' @
     ''            SELECT\<newline>'' @
     ''                id,\<newline>'' @
     ''                ghl_location_name,\<newline>'' @
     ''                ghl_location_id,\<newline>'' @
     ''                comments,\<newline>'' @
     ''                rating,\<newline>'' @
     ''                reviewer,\<newline>'' @
     ''                google_review_id,\<newline>'' @
     ''                review_added_on,\<newline>'' @
     ''                reviews_conversation,\<newline>'' @
     ''                is_posted_on_fb,\<newline>'' @
     ''                user_id,\<newline>'' @
     ''                review_id,\<newline>'' @
     ''                locationid,\<newline>'' @
     ''                review_path,\<newline>'' @
     ''                ai_generated_response,\<newline>'' @
     ''                createdAt,\<newline>'' @
     ''                updatedAt,\<newline>'' @
     ''                posted_on_fb,\<newline>'' @
     ''                posted_on_insta,\<newline>'' @
     ''                posted_on_other,\<newline>'' @
     ''                posted_on_twitter,\<newline>'' @
     ''                email,\<newline>'' @
     ''                CASE WHEN rating = "FIVE" THEN 1 ELSE 0 END AS five_star_rating,\<newline>'' @
     ''                CASE WHEN (rating != "FIVE" AND rating != "ZERO") THEN 1 ELSE 0 END AS one_to_four_star_rating,\<newline>'' @
     ''                CASE\<newline>'' @
     ''                    WHEN rating = "FIVE" THEN 5\<newline>'' @
     ''                    WHEN rating = "FOUR" THEN 4\<newline>'' @
     ''                    WHEN rating = "THREE" THEN 3\<newline>'' @
     ''                    WHEN rating = "TWO" THEN 2\<newline>'' @
     ''                    WHEN rating = "ONE" THEN 1\<newline>'' @
     ''                    WHEN rating = "ZERO" THEN 0\<newline>'' @
     ''                    ELSE NULL\<newline>'' @
     ''                END AS rating_2,\<newline>'' @
     ''                CASE WHEN rating = "FIVE" THEN "5 star reviews" ELSE "others" END AS rating_3\<newline>'' @
     ''            FROM `the-pulse-405018.the_pulse.reviews_bq`\<newline>'' @
     ''            ''\<close>

definition ReviewsForLSTool_fields :: "(string \<times> string) list" where
  \<comment> \<open>the value of the key \<^verbatim>\<open>"fields"\<close>\<close>
  \<open>ReviewsForLSTool_fields = [
     (''id'',
      ''Directly selected from the source table using: SELECT id''),
     (''ghl_location_name'',
      ''Directly selected from the source table using: SELECT ghl_location_name''),
     (''ghl_location_id'',
      ''Directly selected from the source table using: SELECT ghl_location_id''),
     (''comments'',
      ''Directly selected from the source table using: SELECT comments''),
     (''rating'',
      ''Directly selected from the source table using: SELECT rating''),
     (''reviewer'',
      ''Directly selected from the source table using: SELECT reviewer''),
     (''google_review_id'',
      ''Directly selected from the source table using: SELECT google_review_id''),
     (''review_added_on'',
      ''Directly selected from the source table using: SELECT review_added_on''),
     (''reviews_conversation'',
      ''Directly selected from the source table using: SELECT reviews_conversation''),
     (''is_posted_on_fb'',
      ''Directly selected from the source table using: SELECT is_posted_on_fb''),
     (''user_id'',
      ''Directly selected from the source table using: SELECT user_id''),
     (''review_id'',
      ''Directly selected from the source table using: SELECT review_id''),
     (''locationid'',
      ''Directly selected from the source table using: SELECT locationid''),
     (''review_path'',
      ''Directly selected from the source table using: SELECT review_path''),
     (''ai_generated_response'',
      ''Directly selected from the source table using: SELECT ai_generated_response''),
     (''createdAt'',
      ''Directly selected from the source table using: SELECT createdAt''),
     (''updatedAt'',
      ''Directly selected from the source table using: SELECT updatedAt''),
     (''posted_on_fb'',
      ''Directly selected from the source table using: SELECT posted_on_fb''),
     (''posted_on_insta'',
      ''Directly selected from the source table using: SELECT posted_on_insta''),
     (''posted_on_other'',
      ''Directly selected from the source table using: SELECT posted_on_other''),
     (''posted_on_twitter'',
      ''Directly selected from the source table using: SELECT posted_on_twitter''),
     (''email'',
      ''Directly selected from the source table using: SELECT email''),
     (''five_star_rating'',
      ''Calculated using: CASE WHEN rating = "FIVE" THEN 1 ELSE 0 END AS five_star_rating''),
     (''one_to_four_star_rating'',
      ''Calculated using: CASE WHEN (rating != "FIVE" AND rating != "ZERO") THEN 1 ELSE 0 END AS one_to_four_star_rating''),
     (''rating_2'',
      ''Calculated using: CASE WHEN rating = "FIVE" THEN 5 WHEN rating = "FOUR" THEN 4 WHEN rating = "THREE" THEN 3 WHEN rating = "TWO" THEN 2 WHEN rating = "ONE" THEN 1 WHEN rating = "ZERO" THEN 0 ELSE NULL END AS rating_2''),
     (''rating_3'',
      ''Calculated using: CASE WHEN rating = "FIVE" THEN "5 star reviews" ELSE "others" END AS rating_3'')
   ]\<close>

definition ReviewsForLSTool_table_info :: "(string \<times> py_value) list" where
  \<open>ReviewsForLSTool_table_info = [
     (''name'', Str (''reviews_forLS'')),
     (''description'', Str (''Provides information about the structure and calculations in the reviews_forLS table.'')),
     (''fields'', StrDict ReviewsForLSTool_fields),
     (''source_table'', Str (''the-pulse-405018.the_pulse.reviews_bq'')),
     (''full_query'', Str ReviewsForLSTool_full_query)
   ]\<close>

definition ReviewsForLSTool_run :: "string \<Rightarrow> error + string" where
  "ReviewsForLSTool_run query0 =
     (let query = lower query0 in
      if query = ''structure'' then Inr (repr_dict repr_value ReviewsForLSTool_table_info)
      else
        case getitem ReviewsForLSTool_table_info ''fields'' of
          Inl e \<Rightarrow> Inl e
        | Inr field_map \<Rightarrow>
            if value_contains field_map query then
              (case value_getitem field_map query of
                 Inl e \<Rightarrow> Inl e
               | Inr v \<Rightarrow>
                   Inr (''Field '' @ [CHR 0x27] @ query @ [CHR 0x27] @ '': '' @ str_value v))
            else Inr (''No information found for query: '' @ query))"

subsection \<open>\<^verbatim>\<open>OpportunitiesForLSTool\<close>\<close>

definition OpportunitiesForLSTool_full_query :: string where
  \<open>OpportunitiesForLSTool_full_query =
     ''\<newline>'' @
     ''            CREATE OR REPLACE TABLE `the-pulse-405018.the_pulse.opportunities_forLS`\<newline>'' @
     ''            PARTITION BY opportunity_created_date\<newline>'' @
     ''            CLUSTER BY ghl_location_id, opportunity_source, Location, Medium\<newline>'' @
     ''            AS\<newline>'' @
     ''            SELECT\<newline>'' @
     ''                ghl_location_id,\<newline>'' @
     ''                ghl_location_name,\<newline>'' @
     ''                contact_id,\<newline>'' @
     ''                contact_email,\<newline>'' @
     ''                contact_tags,\<newline>'' @
     ''                opportunity_created_date,\<newline>'' @
     ''                opportunity_id,\<newline>'' @
     ''                CASE WHEN opportunity_id != "" THEN 1 ELSE 0 END AS Leads,\<newline>'' @
     ''                CASE WHEN opportunity_id != "" AND opportunity_status != "abandoned" THEN 1 ELSE 0 END AS Qualified,\<newline>'' @
     ''                CASE WHEN opportunity_id != "" AND opportunity_stage_name = "Retained" THEN 1 ELSE 0 END AS Retained,\<newline>'' @
     ''                CASE WHEN opportunity_id != "" AND (opportunity_status = "open" OR opportunity_status = "open") THEN 1 ELSE 0 END AS Open_1, -- Not yet less retained\<newline>'' @
     ''                CASE WHEN opportunity_id != "" AND opportunity_status = "lost" THEN 1 ELSE 0 END AS Lost,\<newline>'' @
     ''                CASE WHEN opportunity_id != "" AND opportunity_status = "won" THEN 1 ELSE 0 END AS Signed_Cases,\<newline>'' @
     ''                opportunity_pipeline_name,\<newline>'' @
     ''                opportunity_pipeline_id,\<newline>'' @
     ''                opportunity_stage_name,\<newline>'' @
     ''                opportunity_stage_id,\<newline>'' @
     ''                CASE\<newline>'' @
     ''                    WHEN opportunity_source = "" THEN "Not Indicated"\<newline>'' @
     ''                    WHEN opportunity_source IS NULL THEN "Not Indicated"\<newline>'' @
     ''                    WHEN opportunity_source = "undefined" THEN "Undefined"\<newline>'' @
     ''                    WHEN opportunity_source = "LSA" THEN "Undefined"\<newline>'' @
     ''                    ELSE opportunity_source\<newline>'' @
     ''                END AS opportunity_source,\<newline>'' @
     ''                opportunity_value AS Revenue,\<newline>'' @
     ''                opportunity_status AS Status,\<newline>'' @
     ''                opportunity_assigned_user,\<newline>'' @
     ''                CASE\<newline>'' @
     ''                    WHEN opportunity_location = "" THEN "Not Indicated"\<newline>'' @
     ''                    WHEN opportunity_location IS NULL THEN "Not Indicated"\<newline>'' @
     ''                    ELSE opportunity_location\<newline>'' @
     ''                END AS Location,\<newline>'' @
     ''                opportunity_medium AS Medium,\<newline>'' @
     ''                opportunity_case_type AS Type\<newline>'' @
     ''            FROM `the-pulse-405018.the_pulse.lfgm_opportunities_bq`\<newline>'' @
     ''            UNION ALL\<newline>'' @
     ''            SELECT\<newline>'' @
     ''                "ABC" AS ghl_location_id,\<newline>'' @
     ''                "ABC" AS ghl_location_name,\<newline>'' @
     ''                "ABC" AS contact_id,\<newline>'' @
     ''                "ABC" AS contact_email,\<newline>'' @
     ''                "ABC" AS contact_tags,\<newline>'' @
     ''                NULL AS opportunity_created_date,\<newline>'' @
     ''                "" AS opportunity_id,\<newline>'' @
     ''                1 AS Leads,\<newline>'' @
     ''                1 AS Qualified,\<newline>'' @
     ''                1 AS Retained,\<newline>'' @
     ''                1 AS Open_1,\<newline>'' @
     ''                1 AS Lost,\<newline>'' @
     ''                1 AS Signed_Cases,\<newline>'' @
     ''                "" AS opportunity_pipeline_name,\<newline>'' @
     ''                "" AS opportunity_pipeline_id,\<newline>'' @
     ''                "" AS opportunity_stage_name,\<newline>'' @
     ''                "Not Indicated" AS opportunity_stage_id,\<newline>'' @
     ''                "Not Indicated" AS opportunity_source,\<newline>'' @
     ''                0 AS Revenue,\<newline>'' @
     ''                "" AS Status,\<newline>'' @
     ''                "" AS opportunity_assigned_user,\<newline>'' @
     ''                "Not Indicated" AS Location,\<newline>'' @
     ''                "AS" AS Medium,\<newline>'' @
     ''                "" AS Type\<newline>'' @
     ''            ''\<close>

definition OpportunitiesForLSTool_fields :: "(string \<times> string) list" where
  \<comment> \<open>the value of the key \<^verbatim>\<open>"fields"\<close>\<close>
  \<open>OpportunitiesForLSTool_fields = [
     (''ghl_location_id'',
      ''Directly selected from the source table''),
     (''ghl_location_name'',
      ''Directly selected from the source table''),
     (''contact_id'',
      ''Directly selected from the source table''),
     (''contact_email'',
      ''Directly selected from the source table''),
     (''contact_tags'',
      ''Directly selected from the source table''),
     (''opportunity_created_date'',
      ''Directly selected from the source table''),
     (''opportunity_id'',
      ''Directly selected from the source table''),
     (''Leads'',
      ''CASE WHEN opportunity_id != '' @ [CHR 0x27, CHR 0x27] @ '' THEN 1 ELSE 0 END''),
     (''Qualified'',
      ''CASE WHEN opportunity_id != '' @ [CHR 0x27, CHR 0x27] @ '' AND opportunity_status != 'abandoned' THEN 1 ELSE 0 END''),
     (''Retained'',
      ''CASE WHEN opportunity_id != '' @ [CHR 0x27, CHR 0x27] @ '' AND opportunity_stage_name = 'Retained' THEN 1 ELSE 0 END''),
     (''Open_1'',
      ''CASE WHEN opportunity_id != '' @ [CHR 0x27, CHR 0x27] @ '' AND (opportunity_status = 'open' OR opportunity_status = 'open') THEN 1 ELSE 0 END''),
     (''Lost'',
      ''CASE WHEN opportunity_id != '' @ [CHR 0x27, CHR 0x27] @ '' AND opportunity_status = 'lost' THEN 1 ELSE 0 END''),
     (''Signed_Cases'',
      ''CASE WHEN opportunity_id != '' @ [CHR 0x27, CHR 0x27] @ '' AND opportunity_status = 'won' THEN 1 ELSE 0 END''),
     (''opportunity_pipeline_name'',
      ''Directly selected from the source table''),
     (''opportunity_pipeline_id'',
      ''Directly selected from the source table''),
     (''opportunity_stage_name'',
      ''Directly selected from the source table''),
     (''opportunity_stage_id'',
      ''Directly selected from the source table''),
     (''opportunity_source'',
      ''CASE WHEN opportunity_source = '' @ [CHR 0x27, CHR 0x27] @ '' THEN 'Not Indicated' WHEN opportunity_source IS NULL THEN 'Not Indicated' WHEN opportunity_source = 'undefined' THEN 'Undefined' WHEN opportunity_source = 'LSA' THEN 'Undefined' ELSE opportunity_source END''),
     (''Revenue'',
      ''SELECT opportunity_value AS Revenue''),
     (''Status'',
      ''SELECT opportunity_status AS Status''),
     (''opportunity_assigned_user'',
      ''Directly selected from the source table''),
     (''Location'',
      ''CASE WHEN opportunity_location = '' @ [CHR 0x27, CHR 0x27] @ '' THEN 'Not Indicated' WHEN opportunity_location IS NULL THEN 'Not Indicated' ELSE opportunity_location END''),
     (''Medium'',
      ''SELECT opportunity_medium AS Medium''),
     (''Type'',
      ''SELECT opportunity_case_type AS Type'')
   ]\<close>

definition OpportunitiesForLSTool_table_info :: "(string \<times> py_value) list" where
  \<open>OpportunitiesForLSTool_table_info = [
     (''name'', Str (''opportunities_forLS'')),
     (''description'', Str (''Provides information about opportunities data.'')),
     (''fields'', StrDict OpportunitiesForLSTool_fields),
     (''source_table'', Str (''the-pulse-405018.the_pulse.lfgm_opportunities_bq'')),
     (''partitioning'', Str (''PARTITION BY opportunity_created_date'')),
     (''clustering'', Str (''CLUSTER BY ghl_location_id, opportunity_source, Location, Medium'')),
     (''grouping'', Str (''none'')),
     (''full_query'', Str OpportunitiesForLSTool_full_query)
   ]\<close>

definition OpportunitiesForLSTool_run :: "string \<Rightarrow> error + string" where
  "OpportunitiesForLSTool_run query0 =
     (let query = lower query0 in
      if query = ''structure'' then Inr (repr_dict repr_value OpportunitiesForLSTool_table_info)
      else
        case getitem OpportunitiesForLSTool_table_info ''fields'' of
          Inl e \<Rightarrow> Inl e
        | Inr field_map \<Rightarrow>
            if value_contains field_map query then
              (case value_getitem field_map query of
                 Inl e \<Rightarrow> Inl e
               | Inr v \<Rightarrow>
                   Inr (''Field '' @ [CHR 0x27] @ query @ [CHR 0x27] @ '': '' @ str_value v))
            else if query \<in> set [''clustering'', ''partitioning'', ''grouping'', ''full_query''] then
              (case getitem OpportunitiesForLSTool_table_info query of
                 Inl e \<Rightarrow> Inl e
               | Inr v \<Rightarrow> Inr (capitalize query @ '': '' @ str_value v))
            else if query = ''source_table'' then
              (case getitem OpportunitiesForLSTool_table_info ''source_table'' of
                 Inl e \<Rightarrow> Inl e
               | Inr v \<Rightarrow> Inr (''Source Table: '' @ str_value v))
            else Inr (''No information found for query: '' @ query))"

subsection \<open>\<^verbatim>\<open>AdExpenseDataMonthlyForLSTool\<close>\<close>

definition AdExpenseDataMonthlyForLSTool_full_query :: string where
  \<open>AdExpenseDataMonthlyForLSTool_full_query =
     ''\<newline>'' @
     ''            CREATE OR REPLACE TABLE `the-pulse-405018.the_pulse.ad_expense_data_monthly_forLS` AS\<newline>'' @
     ''            -- For the last month\<newline>'' @
     ''            SELECT\<newline>'' @
     ''                ghl_location_id,\<newline>'' @
     ''                ghl_location_name,\<newline>'' @
     ''                formatted_expense_monthyear,\<newline>'' @
     ''                1 AS Month, -- Last month\<newline>'' @
     ''                SUM(ad_expense) AS ad_expense\<newline>'' @
     ''            FROM `the-pulse-405018.the_pulse.ad_expense_data_forLS`\<newline>'' @
     ''            WHERE DATE_TRUNC(formatted_expense_monthyear, MONTH) = DATE_TRUNC(DATE_SUB(CURRENT_DATE(), INTERVAL 1 MONTH), MONTH)\<newline>'' @
     ''            GROUP BY ghl_location_id, ghl_location_name, formatted_expense_monthyear\<newline>'' @
     ''\<newline>'' @
     ''            UNION ALL\<newline>'' @
     ''\<newline>'' @
     ''            -- For the last 3 months\<newline>'' @
     ''            SELECT\<newline>'' @
     ''                ghl_location_id,\<newline>'' @
     ''                ghl_location_name,\<newline>'' @
     ''                formatted_expense_monthyear,\<newline>'' @
     ''                3 AS Month, -- Last 3 months\<newline>'' @
     ''                SUM(ad_expense) AS ad_expense\<newline>'' @
     ''            FROM `the-pulse-405018.the_pulse.ad_expense_data_forLS`\<newline>'' @
     ''            WHERE formatted_expense_monthyear >= DATE_TRUNC(DATE_SUB(CURRENT_DATE(), INTERVAL 3 MONTH), MONTH)\<newline>'' @
     ''              AND formatted_expense_monthyear < DATE_TRUNC(CURRENT_DATE(), MONTH)\<newline>'' @
     ''            GROUP BY ghl_location_id, ghl_location_name, formatted_expense_monthyear\<newline>'' @
     ''\<newline>'' @
     ''            UNION ALL\<newline>'' @
     ''\<newline>'' @
     ''            -- For the last 6 months\<newline>'' @
     ''            SELECT\<newline>'' @
     ''                ghl_location_id,\<newline>'' @
     ''                ghl_location_name,\<newline>'' @
     ''                formatted_expense_monthyear,\<newline>'' @
     ''                6 AS Month, -- Last 6 months\<newline>'' @
     ''                SUM(ad_expense) AS ad_expense\<newline>'' @
     ''            FROM `the-pulse-405018.the_pulse.ad_expense_data_forLS`\<newline>'' @
     ''            WHERE formatted_expense_monthyear >= DATE_TRUNC(DATE_SUB(CURRENT_DATE(), INTERVAL 6 MONTH), MONTH)\<newline>'' @
     ''              AND formatted_expense_monthyear < DATE_TRUNC(CURRENT_DATE(), MONTH)\<newline>'' @
     ''            GROUP BY ghl_location_id, ghl_location_name, formatted_expense_monthyear\<newline>'' @
     ''\<newline>'' @
     ''            UNION ALL\<newline>'' @
     ''\<newline>'' @
     ''            -- For the last 12 months\<newline>'' @
     ''            SELECT\<newline>'' @
     ''                ghl_location_id,\<newline>'' @
     ''                ghl_location_name,\<newline>'' @
     ''                formatted_expense_monthyear,\<newline>'' @
     ''                12 AS Month, -- Last 12 months\<newline>'' @
     ''                SUM(ad_expense) AS ad_expense\<newline>'' @
     ''            FROM `the-pulse-405018.the_pulse.ad_expense_data_forLS`\<newline>'' @
     ''            WHERE formatted_expense_monthyear >= DATE_TRUNC(DATE_SUB(CURRENT_DATE(), INTERVAL 12 MONTH), MONTH)\<newline>'' @
     ''              AND formatted_expense_monthyear < DATE_TRUNC(CURRENT_DATE(), MONTH)\<newline>'' @
     ''            GROUP BY ghl_location_id, ghl_location_name, formatted_expense_monthyear\<newline>'' @
     ''            ''\<close>

definition AdExpenseDataMonthlyForLSTool_fields :: "(string \<times> string) list" where
  \<comment> \<open>the value of the key \<^verbatim>\<open>"fields"\<close>\<close>
  \<open>AdExpenseDataMonthlyForLSTool_fields = [
     (''ghl_location_id'',
      ''Directly selected from the source table using: SELECT ghl_location_id''),
     (''ghl_location_name'',
      ''Directly selected from the source table using: SELECT ghl_location_name''),
     (''formatted_expense_monthyear'',
      ''Directly selected from the source table using: SELECT formatted_expense_monthyear''),
     (''Month'',
      ''Calculated using: 1, 3, 6, or 12 AS Month depending on the time period''),
     (''ad_expense'',
      ''Calculated using: SUM(ad_expense) AS ad_expense'')
   ]\<close>

definition AdExpenseDataMonthlyForLSTool_table_info :: "(string \<times> py_value) list" where
  \<open>AdExpenseDataMonthlyForLSTool_table_info = [
     (''name'', Str (''ad_expense_data_monthly_forLS'')),
     (''description'', Str (''Provides information about the structure and calculations in the ad_expense_data_monthly_forLS table.'')),
     (''fields'', StrDict AdExpenseDataMonthlyForLSTool_fields),
     (''source_table'', Str (''the-pulse-405018.the_pulse.ad_expense_data_forLS'')),
     (''time_periods'', StrList [
        ''Last 1 month: WHERE DATE_TRUNC(formatted_expense_monthyear, MONTH) = DATE_TRUNC(DATE_SUB(CURRENT_DATE(), INTERVAL 1 MONTH), MONTH)'',
        ''Last 3 months: WHERE formatted_expense_monthyear >= DATE_TRUNC(DATE_SUB(CURRENT_DATE(), INTERVAL 3 MONTH), MONTH) AND formatted_expense_monthyear < DATE_TRUNC(CURRENT_DATE(), MONTH)'',
        ''Last 6 months: WHERE formatted_expense_monthyear >= DATE_TRUNC(DATE_SUB(CURRENT_DATE(), INTERVAL 6 MONTH), MONTH) AND formatted_expense_monthyear < DATE_TRUNC(CURRENT_DATE(), MONTH)'',
        ''Last 12 months: WHERE formatted_expense_monthyear >= DATE_TRUNC(DATE_SUB(CURRENT_DATE(), INTERVAL 12 MONTH), MONTH) AND formatted_expense_monthyear < DATE_TRUNC(CURRENT_DATE(), MONTH)'']),
     (''grouping'', Str (''GROUP BY ghl_location_id, ghl_location_name, formatted_expense_monthyear'')),
     (''partitioning'', Str (''none'')),
     (''clustering'', Str (''none'')),
     (''full_query'', Str AdExpenseDataMonthlyForLSTool_full_query)
   ]\<close>

definition AdExpenseDataMonthlyForLSTool_run :: "string \<Rightarrow> error + string" where
  "AdExpenseDataMonthlyForLSTool_run query0 =
     (let query = lower query0 in
      if query = ''structure'' then Inr (repr_dict repr_value AdExpenseDataMonthlyForLSTool_table_info)
      else
        case getitem AdExpenseDataMonthlyForLSTool_table_info ''fields'' of
          Inl e \<Rightarrow> Inl e
        | Inr field_map \<Rightarrow>
            if value_contains field_map query then
              (case value_getitem field_map query of
                 Inl e \<Rightarrow> Inl e
               | Inr v \<Rightarrow>
                   Inr (''Field '' @ [CHR 0x27] @ query @ [CHR 0x27] @ '': '' @ str_value v))
            else if query \<in> set [''clustering'', ''partitioning'', ''grouping'', ''full_query'', ''time_periods''] then
              (case getitem AdExpenseDataMonthlyForLSTool_table_info query of
                 Inl e \<Rightarrow> Inl e
               | Inr v \<Rightarrow> Inr (capitalize query @ '': '' @ str_value v))
            else if query = ''source_table'' then
              (case getitem AdExpenseDataMonthlyForLSTool_table_info ''source_table'' of
                 Inl e \<Rightarrow> Inl e
               | Inr v \<Rightarrow> Inr (''Source Table: '' @ str_value v))
            else Inr (''No information found for query: '' @ query))"

subsection \<open>\<^verbatim>\<open>OpportunitiesMonthlyForLSTool\<close>\<close>

definition OpportunitiesMonthlyForLSTool_full_query :: string where
  \<open>OpportunitiesMonthlyForLSTool_full_query =
     ''\<newline>'' @
     ''            CREATE OR REPLACE TABLE `the-pulse-405018.the_pulse.opportunities_monthly_forLS` AS\<newline>'' @
     ''            SELECT\<newline>'' @
     ''                ghl_location_id,\<newline>'' @
     ''                ghl_location_name,\<newline>'' @
     ''                opportunity_created_date,\<newline>'' @
     ''                1 AS Month, -- Last month\<newline>'' @
     ''                SUM(Leads) AS Leads,\<newline>'' @
     ''                SUM(Qualified) AS Qualified,\<newline>'' @
     ''                SUM(Retained) AS Retained,\<newline>'' @
     ''                SUM(Lost) AS Lost,\<newline>'' @
     ''                SUM(Signed_Cases) AS Signed_Cases,\<newline>'' @
     ''                SUM(Revenue) AS Revenue\<newline>'' @
     ''            FROM `the-pulse-405018.the_pulse.opportunities_forLS`\<newline>'' @
     ''            WHERE DATE_TRUNC(opportunity_created_date, MONTH) = DATE_TRUNC(DATE_SUB(CURRENT_DATE(), INTERVAL 1 MONTH), MONTH)\<newline>'' @
     ''            GROUP BY ghl_location_id, ghl_location_name, opportunity_created_date\<newline>'' @
     ''\<newline>'' @
     ''            UNION ALL\<newline>'' @
     ''\<newline>'' @
     ''            SELECT\<newline>'' @
     ''                ghl_location_id,\<newline>'' @
     ''                ghl_location_name,\<newline>'' @
     ''                opportunity_created_date,\<newline>'' @
     ''                3 AS Month, -- Last 3 months\<newline>'' @
     ''                SUM(Leads) AS Leads,\<newline>'' @
     ''                SUM(Qualified) AS Qualified,\<newline>'' @
     ''                SUM(Retained) AS Retained,\<newline>'' @
     ''                SUM(Lost) AS Lost,\<newline>'' @
     ''                SUM(Signed_Cases) AS Signed_Cases,\<newline>'' @
     ''                SUM(Revenue) AS Revenue\<newline>'' @
     ''            FROM `the-pulse-405018.the_pulse.opportunities_forLS`\<newline>'' @
     ''            WHERE opportunity_created_date >= DATE_TRUNC(DATE_SUB(CURRENT_DATE(), INTERVAL 3 MONTH), MONTH)\<newline>'' @
     ''              AND opportunity_created_date < DATE_TRUNC(CURRENT_DATE(), MONTH)\<newline>'' @
     ''            GROUP BY ghl_location_id, ghl_location_name, opportunity_created_date\<newline>'' @
     ''\<newline>'' @
     ''            UNION ALL\<newline>'' @
     ''\<newline>'' @
     ''            SELECT\<newline>'' @
     ''                ghl_location_id,\<newline>'' @
     ''                ghl_location_name,\<newline>'' @
     ''                opportunity_created_date,\<newline>'' @
     ''                6 AS Month, -- Last 6 months\<newline>'' @
     ''                SUM(Leads) AS Leads,\<newline>'' @
     ''                SUM(Qualified) AS Qualified,\<newline>'' @
     ''                SUM(Retained) AS Retained,\<newline>'' @
     ''                SUM(Lost) AS Lost,\<newline>'' @
     ''                SUM(Signed_Cases) AS Signed_Cases,\<newline>'' @
     ''                SUM(Revenue) AS Revenue\<newline>'' @
     ''            FROM `the-pulse-405018.the_pulse.opportunities_forLS`\<newline>'' @
     ''            WHERE opportunity_created_date >= DATE_TRUNC(DATE_SUB(CURRENT_DATE(), INTERVAL 6 MONTH), MONTH)\<newline>'' @
     ''              AND opportunity_created_date < DATE_TRUNC(CURRENT_DATE(), MONTH)\<newline>'' @
     ''            GROUP BY ghl_location_id, ghl_location_name, opportunity_created_date\<newline>'' @
     ''\<newline>'' @
     ''            UNION ALL\<newline>'' @
     ''\<newline>'' @
     ''            SELECT\<newline>'' @
     ''                ghl_location_id,\<newline>'' @
     ''                ghl_location_name,\<newline>'' @
     ''                opportunity_created_date,\<newline>'' @
     ''                12 AS Month, -- Last 12 months\<newline>'' @
     ''                SUM(Leads) AS Leads,\<newline>'' @
     ''                SUM(Qualified) AS Qualified,\<newline>'' @
     ''                SUM(Retained) AS Retained,\<newline>'' @
     ''                SUM(Lost) AS Lost,\<newline>'' @
     ''                SUM(Signed_Cases) AS Signed_Cases,\<newline>'' @
     ''                SUM(Revenue) AS Revenue\<newline>'' @
     ''            FROM `the-pulse-405018.the_pulse.opportunities_forLS`\<newline>'' @
     ''            WHERE opportunity_created_date >= DATE_TRUNC(DATE_SUB(CURRENT_DATE(), INTERVAL 12 MONTH), MONTH)\<newline>'' @
     ''              AND opportunity_created_date < DATE_TRUNC(CURRENT_DATE(), MONTH)\<newline>'' @
     ''            GROUP BY ghl_location_id, ghl_location_name, opportunity_created_date\<newline>'' @
     ''            ''\<close>

definition OpportunitiesMonthlyForLSTool_fields :: "(string \<times> string) list" where
  \<comment> \<open>the value of the key \<^verbatim>\<open>"fields"\<close>\<close>
  \<open>OpportunitiesMonthlyForLSTool_fields = [
     (''ghl_location_id'',
      ''Directly selected from the source table using: SELECT ghl_location_id''),
     (''ghl_location_name'',
      ''Directly selected from the source table using: SELECT ghl_location_name''),
     (''opportunity_created_date'',
      ''Directly selected from the source table using: SELECT opportunity_created_date''),
     (''Month'',
      ''Calculated using: 1, 3, 6, or 12 AS Month depending on the time period''),
     (''Leads'',
      ''Calculated using: SUM(Leads) AS Leads''),
     (''Qualified'',
      ''Calculated using: SUM(Qualified) AS Qualified''),
     (''Retained'',
      ''Calculated using: SUM(Retained) AS Retained''),
     (''Lost'',
      ''Calculated using: SUM(Lost) AS Lost''),
     (''Signed_Cases'',
      ''Calculated using: SUM(Signed_Cases) AS Signed_Cases''),
     (''Revenue'',
      ''Calculated using: SUM(Revenue) AS Revenue'')
   ]\<close>

definition OpportunitiesMonthlyForLSTool_table_info :: "(string \<times> py_value) list" where
  \<open>OpportunitiesMonthlyForLSTool_table_info = [
     (''name'', Str (''opportunities_monthly_forLS'')),
     (''description'', Str (''Provides information about the structure and calculations in the opportunities_monthly_forLS table.'')),
     (''fields'', StrDict OpportunitiesMonthlyForLSTool_fields),
     (''source_table'', Str (''the-pulse-405018.the_pulse.opportunities_forLS'')),
     (''time_periods'', StrList [
        ''Last 1 month: WHERE DATE_TRUNC(opportunity_created_date, MONTH) = DATE_TRUNC(DATE_SUB(CURRENT_DATE(), INTERVAL 1 MONTH), MONTH)'',
        ''Last 3 months: WHERE opportunity_created_date >= DATE_TRUNC(DATE_SUB(CURRENT_DATE(), INTERVAL 3 MONTH), MONTH) AND opportunity_created_date < DATE_TRUNC(CURRENT_DATE(), MONTH)'',
        ''Last 6 months: WHERE opportunity_created_date >= DATE_TRUNC(DATE_SUB(CURRENT_DATE(), INTERVAL 6 MONTH), MONTH) AND opportunity_created_date < DATE_TRUNC(CURRENT_DATE(), MONTH)'',
        ''Last 12 months: WHERE opportunity_created_date >= DATE_TRUNC(DATE_SUB(CURRENT_DATE(), INTERVAL 12 MONTH), MONTH) AND opportunity_created_date < DATE_TRUNC(CURRENT_DATE(), MONTH)'']),
     (''grouping'', Str (''GROUP BY ghl_location_id, ghl_location_name, opportunity_created_date'')),
     (''partitioning'', Str (''none'')),
     (''clustering'', Str (''none'')),
     (''full_query'', Str OpportunitiesMonthlyForLSTool_full_query)
   ]\<close>

definition OpportunitiesMonthlyForLSTool_run :: "string \<Rightarrow> error + string" where
  "OpportunitiesMonthlyForLSTool_run query0 =
     (let query = lower query0 in
      if query = ''structure'' then Inr (repr_dict repr_value OpportunitiesMonthlyForLSTool_table_info)
      else
        case getitem OpportunitiesMonthlyForLSTool_table_info ''fields'' of
          Inl e \<Rightarrow> Inl e
        | Inr field_map \<Rightarrow>
            if value_contains field_map query then
              (case value_getitem field_map query of
                 Inl e \<Rightarrow> Inl e
               | Inr v \<Rightarrow>
                   Inr (''Field '' @ [CHR 0x27] @ query @ [CHR 0x27] @ '': '' @ str_value v))
            else if query = ''time_periods'' then
              (case getitem OpportunitiesMonthlyForLSTool_table_info ''time_periods'' of
                 Inl e \<Rightarrow> Inl e
               | Inr v \<Rightarrow> Inr (''Time Periods: '' @ str_value v))
            else if query = ''grouping'' then
              (case getitem OpportunitiesMonthlyForLSTool_table_info ''grouping'' of
                 Inl e \<Rightarrow> Inl e
               | Inr v \<Rightarrow> Inr (''Grouping: '' @ str_value v))
            else if query = ''full_query'' then
              (case getitem OpportunitiesMonthlyForLSTool_table_info ''full_query'' of
                 Inl e \<Rightarrow> Inl e
               | Inr v \<Rightarrow> Inr (''Full Query: '' @ str_value v))
            else Inr (''No information found for query: '' @ query))"

subsection \<open>\<^verbatim>\<open>CallsMonthlyForLSTool\<close>\<close>

definition CallsMonthlyForLSTool_full_query :: string where
  \<open>CallsMonthlyForLSTool_full_query =
     ''\<newline>'' @
     ''            CREATE OR REPLACE TABLE `the-pulse-405018.the_pulse.calls_monthly_forLS` AS\<newline>'' @
     ''            -- For the last month\<newline>'' @
     ''            SELECT\<newline>'' @
     ''                ghl_location_id,\<newline>'' @
     ''                ghl_location_name,\<newline>'' @
     ''                call_date,\<newline>'' @
     ''                1 AS Month, -- Last month\<newline>'' @
     ''                SUM(Total_Calls) AS Total_Calls,\<newline>'' @
     ''                SUM(Answered_Calls) AS Answered_Calls\<newline>'' @
     ''            FROM `the-pulse-405018.the_pulse.calls_forLS`\<newline>'' @
     ''            WHERE DATE_TRUNC(call_date, MONTH) = DATE_TRUNC(DATE_SUB(CURRENT_DATE(), INTERVAL 1 MONTH), MONTH)\<newline>'' @
     ''            GROUP BY ghl_location_id, ghl_location_name, call_date\<newline>'' @
     ''\<newline>'' @
     ''            UNION ALL\<newline>'' @
     ''\<newline>'' @
     ''            -- For the last 3 months\<newline>'' @
     ''            SELECT\<newline>'' @
     ''                ghl_location_id,\<newline>'' @
     ''                ghl_location_name,\<newline>'' @
     ''                call_date,\<newline>'' @
     ''                3 AS Month, -- Last 3 months\<newline>'' @
     ''                SUM(Total_Calls) AS Total_Calls,\<newline>'' @
     ''                SUM(Answered_Calls) AS Answered_Calls\<newline>'' @
     ''            FROM `the-pulse-405018.the_pulse.calls_forLS`\<newline>'' @
     ''            WHERE call_date >= DATE_TRUNC(DATE_SUB(CURRENT_DATE(), INTERVAL 3 MONTH), MONTH)\<newline>'' @
     ''              AND call_date < DATE_TRUNC(CURRENT_DATE(), MONTH)\<newline>'' @
     ''            GROUP BY ghl_location_id, ghl_location_name, call_date\<newline>'' @
     ''\<newline>'' @
     ''            UNION ALL\<newline>'' @
     ''\<newline>'' @
     ''            SELECT\<newline>'' @
     ''                ghl_location_id,\<newline>'' @
     ''                ghl_location_name,\<newline>'' @
     ''                call_date,\<newline>'' @
     ''                6 AS Month, -- Last 6 months\<newline>'' @
     ''                SUM(Total_Calls) AS Total_Calls,\<newline>'' @
     ''                SUM(Answered_Calls) AS Answered_Calls\<newline>'' @
     ''            FROM `the-pulse-405018.the_pulse.calls_forLS`\<newline>'' @
     ''            WHERE call_date >= DATE_TRUNC(DATE_SUB(CURRENT_DATE(), INTERVAL 6 MONTH), MONTH)\<newline>'' @
     ''              AND call_date < DATE_TRUNC(CURRENT_DATE(), MONTH)\<newline>'' @
     ''            GROUP BY ghl_location_id, ghl_location_name, call_date\<newline>'' @
     ''\<newline>'' @
     ''            UNION ALL\<newline>'' @
     ''\<newline>'' @
     ''            SELECT\<newline>'' @
     ''                ghl_location_id,\<newline>'' @
     ''                ghl_location_name,\<newline>'' @
     ''                call_date,\<newline>'' @
     ''                12 AS Month, -- Last 12 months\<newline>'' @
     ''                SUM(Total_Calls) AS Total_Calls,\<newline>'' @
     ''                SUM(Answered_Calls) AS Answered_Calls\<newline>'' @
     ''            FROM `the-pulse-405018.the_pulse.calls_forLS`\<newline>'' @
     ''            WHERE call_date >= DATE_TRUNC(DATE_SUB(CURRENT_DATE(), INTERVAL 12 MONTH), MONTH)\<newline>'' @
     ''              AND call_date < DATE_TRUNC(CURRENT_DATE(), MONTH)\<newline>'' @
     ''            GROUP BY ghl_location_id, ghl_location_name, call_date\<newline>'' @
     ''            ''\<close>

definition CallsMonthlyForLSTool_fields :: "(string \<times> string) list" where
  \<comment> \<open>the value of the key \<^verbatim>\<open>"fields"\<close>\<close>
  \<open>CallsMonthlyForLSTool_fields = [
     (''ghl_location_id'',
      ''Directly selected from the source table using: SELECT ghl_location_id''),
     (''ghl_location_name'',
      ''Directly selected from the source table using: SELECT ghl_location_name''),
     (''call_date'',
      ''Directly selected from the source table using: SELECT call_date''),
     (''Month'',
      ''Calculated using: 1, 3, 6, or 12 AS Month depending on the time period''),
     (''Total_Calls'',
      ''Calculated using: SUM(Total_Calls) AS Total_Calls''),
     (''Answered_Calls'',
      ''Calculated using: SUM(Answered_Calls) AS Answered_Calls'')
   ]\<close>

definition CallsMonthlyForLSTool_table_info :: "(string \<times> py_value) list" where
  \<open>CallsMonthlyForLSTool_table_info = [
     (''name'', Str (''calls_monthly_forLS'')),
     (''description'', Str (''Provides information about the structure and calculations in the calls_monthly_forLS table.'')),
     (''fields'', StrDict CallsMonthlyForLSTool_fields),
     (''source_table'', Str (''the-pulse-405018.the_pulse.calls_forLS'')),
     (''time_periods'', StrList [
        ''Last 1 month: WHERE DATE_TRUNC(call_date, MONTH) = DATE_TRUNC(DATE_SUB(CURRENT_DATE(), INTERVAL 1 MONTH), MONTH)'',
        ''Last 3 months: WHERE call_date >= DATE_TRUNC(DATE_SUB(CURRENT_DATE(), INTERVAL 3 MONTH), MONTH) AND call_date < DATE_TRUNC(CURRENT_DATE(), MONTH)'',
        ''Last 6 months: WHERE call_date >= DATE_TRUNC(DATE_SUB(CURRENT_DATE(), INTERVAL 6 MONTH), MONTH) AND call_date < DATE_TRUNC(CURRENT_DATE(), MONTH)'',
        ''Last 12 months: WHERE call_date >= DATE_TRUNC(DATE_SUB(CURRENT_DATE(), INTERVAL 12 MONTH), MONTH) AND call_date < DATE_TRUNC(CURRENT_DATE(), MONTH)'']),
     (''grouping'', Str (''GROUP BY ghl_location_id, ghl_location_name, call_date'')),
     (''partitioning'', Str (''none'')),
     (''clustering'', Str (''none'')),
     (''full_query'', Str CallsMonthlyForLSTool_full_query)
   ]\<close>

definition CallsMonthlyForLSTool_run :: "string \<Rightarrow> error + string" where
  "CallsMonthlyForLSTool_run query0 =
     (let query = lower query0 in
      if query = ''structure'' then Inr (repr_dict repr_value CallsMonthlyForLSTool_table_info)
      else
        case getitem CallsMonthlyForLSTool_table_info ''fields'' of
          Inl e \<Rightarrow> Inl e
        | Inr field_map \<Rightarrow>
            if value_contains field_map query then
              (case value_getitem field_map query of
                 Inl e \<Rightarrow> Inl e
               | Inr v \<Rightarrow>
                   Inr (''Field '' @ [CHR 0x27] @ query @ [CHR 0x27] @ '': '' @ str_value v))
            else if query = ''time_periods'' then
              (case getitem CallsMonthlyForLSTool_table_info ''time_periods'' of
                 Inl e \<Rightarrow> Inl e
               | Inr v \<Rightarrow> Inr (''Time Periods: '' @ str_value v))
            else if query = ''grouping'' then
              (case getitem CallsMonthlyForLSTool_table_info ''grouping'' of
                 Inl e \<Rightarrow> Inl e
               | Inr v \<Rightarrow> Inr (''Grouping: '' @ str_value v))
            else if query = ''full_query'' then
              (case getitem CallsMonthlyForLSTool_table_info ''full_query'' of
                 Inl e \<Rightarrow> Inl e
               | Inr v \<Rightarrow> Inr (''Full Query: '' @ str_value v))
            else Inr (''No information found for query: '' @ query))"

subsection \<open>The providers as one family\<close>

datatype provider =
    CallsForLSTool
  | AdExpenseDataForLSTool
  | ReviewsForLSTool
  | OpportunitiesForLSTool
  | AdExpenseDataMonthlyForLSTool
  | OpportunitiesMonthlyForLSTool
  | CallsMonthlyForLSTool

fun provider_table_info :: "provider \<Rightarrow> (string \<times> py_value) list" where
  "provider_table_info CallsForLSTool = CallsForLSTool_table_info"
| "provider_table_info AdExpenseDataForLSTool = AdExpenseDataForLSTool_table_info"
| "provider_table_info ReviewsForLSTool = ReviewsForLSTool_table_info"
| "provider_table_info OpportunitiesForLSTool = OpportunitiesForLSTool_table_info"
| "provider_table_info AdExpenseDataMonthlyForLSTool = AdExpenseDataMonthlyForLSTool_table_info"
| "provider_table_info OpportunitiesMonthlyForLSTool = OpportunitiesMonthlyForLSTool_table_info"
| "provider_table_info CallsMonthlyForLSTool = CallsMonthlyForLSTool_table_info"

fun provider_run :: "provider \<Rightarrow> string \<Rightarrow> error + string" where
  "provider_run CallsForLSTool = CallsForLSTool_run"
| "provider_run AdExpenseDataForLSTool = AdExpenseDataForLSTool_run"
| "provider_run ReviewsForLSTool = ReviewsForLSTool_run"
| "provider_run OpportunitiesForLSTool = OpportunitiesForLSTool_run"
| "provider_run AdExpenseDataMonthlyForLSTool = AdExpenseDataMonthlyForLSTool_run"
| "provider_run OpportunitiesMonthlyForLSTool = OpportunitiesMonthlyForLSTool_run"
| "provider_run CallsMonthlyForLSTool = CallsMonthlyForLSTool_run"

fun provider_full_query :: "provider \<Rightarrow> string" where
  "provider_full_query CallsForLSTool = CallsForLSTool_full_query"
| "provider_full_query AdExpenseDataForLSTool = AdExpenseDataForLSTool_full_query"
| "provider_full_query ReviewsForLSTool = ReviewsForLSTool_full_query"
| "provider_full_query OpportunitiesForLSTool = OpportunitiesForLSTool_full_query"
| "provider_full_query AdExpenseDataMonthlyForLSTool = AdExpenseDataMonthlyForLSTool_full_query"
| "provider_full_query OpportunitiesMonthlyForLSTool = OpportunitiesMonthlyForLSTool_full_query"
| "provider_full_query CallsMonthlyForLSTool = CallsMonthlyForLSTool_full_query"

definition field_names :: "provider \<Rightarrow> string list" where
  \<comment> \<open>the keys of the \<^verbatim>\<open>"fields"\<close> dictionary\<close>
  "field_names p =
     (case getitem (provider_table_info p) ''fields'' of
        Inr (StrDict d) \<Rightarrow> map fst d
      | _ \<Rightarrow> [])"

definition attribute_topics :: "string list" where
  "attribute_topics =
     [''clustering'', ''partitioning'', ''grouping'', ''full_query'', ''source_table'', ''time_periods'']"

section \<open>Agent controller: \<^verbatim>\<open>setup_agent\<close> and \<^verbatim>\<open>run_agent\<close>\<close>

text \<open>
  The reasoning engine is external. \<^verbatim>\<open>setup_agent\<close> hands it a tool list, a language
  model configuration and the loop settings; what is recorded here is exactly what the
  source passes to \<^verbatim>\<open>ChatOpenAI\<close> and \<^verbatim>\<open>initialize_agent\<close>. The two credential
  calls of \<^verbatim>\<open>setup_agent\<close> (building the credentials and the warehouse client) are
  external too: their outcome is the parameter \<open>make_client\<close>. The field \<open>api_key\<close>
  is the value that \<^verbatim>\<open>setup_agent\<close> stores in the environment variable
  \<^verbatim>\<open>OPENAI_API_KEY\<close> for the model client to read. The catalog's tool is bound
  to \<^verbatim>\<open>DataSchemaRoadmapTool().run\<close>, the library's entry point that calls
  \<^verbatim>\<open>_run\<close> on a freshly built catalog.
\<close>

record tool =
  tool_name :: string
  func :: "string \<Rightarrow> error + string"
  tool_description :: string

record llm =
  temperature :: int
  model :: string

record agent =
  tools :: "tool list"
  agent_llm :: llm
  agent_type :: string
  verbose :: bool
  max_iterations :: nat
  api_key :: string

definition setup_agent :: "(error + 'job client) \<Rightarrow> string \<Rightarrow> error + agent" where
  \<open>setup_agent make_client openai_api_key =
     (case make_client of
        Inl e \<Rightarrow> Inl e
      | Inr bigquery_client \<Rightarrow>
          Inr \<lparr>tools = [
                  \<lparr>tool_name = ''BigQuery'',
                   func = execute_bigquery bigquery_client,
                   tool_description = ''Executes SQL queries on BigQuery. Input should be a valid SQL query string.''\<rparr>,
                  \<lparr>tool_name = ''Data Schema Roadmap'',
                   func = (\<lambda>query. fst (DataSchemaRoadmapTool_run DataSchemaRoadmapTool_init query)),
                   tool_description = ''Provides information about the data schema roadmap for Looker Studio visualizations''\<rparr>,
                  \<lparr>tool_name = ''Calls_ForLS'',
                   func = CallsForLSTool_run,
                   tool_description = ''Provides information about call data from the calls_forLS table.''\<rparr>,
                  \<lparr>tool_name = ''Opportunities_ForLS'',
                   func = OpportunitiesForLSTool_run,
                   tool_description = ''Provides information about opportunity data from the opportunities_forLS table.''\<rparr>,
                  \<lparr>tool_name = ''Ad_Expense_Data_ForLS'',
                   func = AdExpenseDataForLSTool_run,
                   tool_description = ''Provides information about ad expense data from the ad_expense_data_forLS table.''\<rparr>,
                  \<lparr>tool_name = ''Reviews_ForLS'',
                   func = ReviewsForLSTool_run,
                   tool_description = ''Provides information about review data from the reviews_forLS table.''\<rparr>,
                  \<lparr>tool_name = ''Ad_Expense_Data_Monthly_ForLS'',
                   func = AdExpenseDataMonthlyForLSTool_run,
                   tool_description = ''Provides information about monthly ad expense data from the ad_expense_data_monthly_forLS table.''\<rparr>,
                  \<lparr>tool_name = ''Opportunities_Monthly_ForLS'',
                   func = OpportunitiesMonthlyForLSTool_run,
                   tool_description = ''Provides information about monthly opportunities data from the opportunities_monthly_forLS table.''\<rparr>,
                  \<lparr>tool_name = ''Calls_Monthly_ForLS'',
                   func = CallsMonthlyForLSTool_run,
                   tool_description = ''Provides information about monthly call data from the calls_monthly_forLS table.''\<rparr>
                ],
               agent_llm = \<lparr>temperature = 0, model = ''gpt-4''\<rparr>,
               agent_type = ''ZERO_SHOT_REACT_DESCRIPTION'',
               verbose = True,
               max_iterations = 5,
               api_key = openai_api_key\<rparr>)\<close>




section \<open>Properties of the string operations\<close>

lemma of_char_lower_char:
  "(of_char (lower_char c) :: nat) =
     (if 65 \<le> (of_char c :: nat) \<and> (of_char c :: nat) \<le> 90 then of_char c + 32
      else if 192 \<le> (of_char c :: nat) \<and> (of_char c :: nat) \<le> 222 \<and> (of_char c :: nat) \<noteq> 215
        then of_char c + 32
      else of_char c)"
  by (simp add: lower_char_def Let_def)

lemma char_eq_iff_nat: "c = d \<longleftrightarrow> (of_char c :: nat) = of_char d"
  by (metis char_of_char)

text \<open>Lower-casing neither creates nor removes a space.\<close>

lemma lower_char_space_iff [simp]: "lower_char c = CHR '' '' \<longleftrightarrow> c = CHR '' ''"
  unfolding char_eq_iff_nat[of _ "CHR '' ''"] of_char_lower_char by simp

lemma lower_append [simp]: "lower (a @ b) = lower a @ lower b"
  by (simp add: lower_def)

lemma length_lower [simp]: "length (lower s) = length s"
  by (simp add: lower_def)

lemma space_in_lower [simp]: "CHR '' '' \<in> set (lower s) \<longleftrightarrow> CHR '' '' \<in> set s"
  by (induction s) (auto simp: lower_def eq_commute[of "CHR '' ''"])

lemma lower_takeWhile:
  "lower (takeWhile (\<lambda>x. x \<noteq> CHR '' '') s) = takeWhile (\<lambda>x. x \<noteq> CHR '' '') (lower s)"
  by (simp add: lower_def takeWhile_map comp_def)

lemma lower_structure: "lower ''structure'' = ''structure''"
  by code_simp

lemma lower_describe: "lower ''describe '' = ''describe ''"
  by code_simp

lemma lower_list_tables: "lower ''list tables'' = ''list tables''"
  by code_simp

text \<open>
  When the lower-cased keyword is \<^verbatim>\<open>"describe "\<close>, the only space of the keyword is
  its last character, so the single split cuts right after it: index 1 always exists
  and is the text behind the keyword, in its original case.
\<close>

lemma split1_describe:
  assumes "lower kw = ''describe ''"
  shows "split1 (kw @ t) CHR '' '' = [take 8 kw, t]"
proof -
  let ?P = "\<lambda>x. x \<noteq> CHR '' ''"
  have sp: "CHR '' '' \<in> set kw"
    using space_in_lower[of kw] assms by simp
  have len: "length kw = 9"
    using length_lower[of kw] assms by simp
  have "lower (takeWhile ?P kw) = ''describe''"
    by (simp add: lower_takeWhile assms)
  then have l8: "length (takeWhile ?P kw) = 8"
    using length_lower[of "takeWhile ?P kw"] by simp
  then have tw: "takeWhile ?P kw = take 8 kw"
    by (metis takeWhile_eq_take)
  have "length (takeWhile ?P kw) + length (dropWhile ?P kw) = length kw"
    by (metis length_append takeWhile_dropWhile_id)
  with l8 len have "length (dropWhile ?P kw) = 1"
    by simp
  then obtain x where dw: "dropWhile ?P kw = [x]"
    by (cases "dropWhile ?P kw") auto
  show ?thesis
    using sp by (simp add: split1_def takeWhile_append1 dropWhile_append1 tw dw)
qed

lemma sublist_join: "x \<in> set xs \<Longrightarrow> sublist x (join sep xs)"
proof (induction sep xs rule: join.induct)
  case (1 sep)
  then show ?case by simp
next
  case (2 sep x')
  then show ?case by simp
next
  case (3 sep x' y ys)
  show ?case
  proof (cases "x = x'")
    case True
    then show ?thesis by simp
  next
    case False
    with 3 have "sublist x (join sep (y # ys))" by simp
    then have "sublist x ((x' @ sep) @ join sep (y # ys))"
      by (metis sublist_append_leftI sublist_order.order.trans)
    then show ?thesis by simp
  qed
qed

lemma notin_join:
  assumes "c \<notin> set sep" and "\<And>x. x \<in> set xs \<Longrightarrow> c \<notin> set x"
  shows "c \<notin> set (join sep xs)"
  using assms by (induction sep xs rule: join.induct) auto

subsection \<open>What \<^verbatim>\<open>repr\<close> keeps and what it escapes\<close>

lemma sublist_repr_item: "sublist (r v) (repr_item r (k, v))"
proof -
  have "repr_item r (k, v) = (repr_str k @ '': '') @ r v"
    by (simp add: repr_item_def)
  then show ?thesis
    by (simp only: sublist_append_leftI)
qed

text \<open>The rendering of a dictionary holds the rendering of each of its values.\<close>

lemma sublist_repr_dict:
  assumes "(k, v) \<in> set d"
  shows "sublist (r v) (repr_dict r d)"
proof -
  have "repr_item r (k, v) \<in> set (map (repr_item r) d)"
    using assms by force
  then have "sublist (repr_item r (k, v)) (join '', '' (map (repr_item r) d))"
    by (rule sublist_join)
  with sublist_repr_item have "sublist (r v) (join '', '' (map (repr_item r) d))"
    by (rule sublist_order.order.trans)
  then show ?thesis
    unfolding repr_dict_def
    by (metis sublist_appendI sublist_order.order.trans)
qed

lemma hex_digit_not_newline: "n < 16 \<Longrightarrow> CHR 0x0A \<noteq> hex_digit n"
  by (simp add: hex_digit_def char_eq_iff_nat[of "CHR 0x0A"])

lemma newline_notin_escape_char:
  assumes "quote \<noteq> CHR 0x0A"
  shows "CHR 0x0A \<notin> set (escape_char quote c)"
proof -
  have "CHR 0x0A \<noteq> hex_digit (of_char c div 16)"
    by (rule hex_digit_not_newline) (simp add: less_mult_imp_div_less)
  moreover have "CHR 0x0A \<noteq> hex_digit (of_char c mod 16)"
    by (rule hex_digit_not_newline) simp
  ultimately show ?thesis
    using assms by (auto simp: escape_char_def)
qed

lemma repr_quote_not_newline: "repr_quote s \<noteq> CHR 0x0A"
  by (simp add: repr_quote_def)

text \<open>
  For example, a text of two lines with both kinds of quote is put in single quotes, its
  line break written as backslash, n and its single quote behind a backslash.
\<close>

lemma repr_str_example:
  \<open>repr_str (''a = "b"\<newline>'' @ [CHR 0x27] @ ''c'')
     = [CHR 0x27] @ ''a = "b"'' @ [CHR 0x5C] @ ''n'' @ [CHR 0x5C, CHR 0x27] @ ''c'' @ [CHR 0x27]\<close>
  by code_simp

text \<open>No line break survives \<^verbatim>\<open>repr\<close>: each one is written as backslash, n.\<close>

lemma newline_notin_repr_str: "CHR 0x0A \<notin> set (repr_str s)"
  using repr_quote_not_newline[of s]
  by (auto simp: repr_str_def newline_notin_escape_char)

lemma newline_notin_repr_list:
  assumes "\<And>x. CHR 0x0A \<notin> set (r x)"
  shows "CHR 0x0A \<notin> set (repr_list r xs)"
proof -
  have "CHR 0x0A \<notin> set (join '', '' (map r xs))"
    by (rule notin_join) (use assms in auto)
  then show ?thesis by (simp add: repr_list_def)
qed

lemma newline_notin_repr_dict:
  assumes "\<And>x. CHR 0x0A \<notin> set (r x)"
  shows "CHR 0x0A \<notin> set (repr_dict r d)"
proof -
  have "CHR 0x0A \<notin> set (join '', '' (map (repr_item r) d))"
    by (rule notin_join) (use assms newline_notin_repr_str in \<open>auto simp: repr_item_def\<close>)
  then show ?thesis by (simp add: repr_dict_def)
qed

lemma newline_notin_repr_value: "CHR 0x0A \<notin> set (repr_value v)"
  by (cases v) (simp_all add: newline_notin_repr_str newline_notin_repr_list newline_notin_repr_dict)

lemma newline_notin_structure: "CHR 0x0A \<notin> set (repr_dict repr_value d)"
  by (rule newline_notin_repr_dict) (rule newline_notin_repr_value)

subsection \<open>Dictionary lookups\<close>

lemma contains_map_of: "contains d k \<longleftrightarrow> map_of d k \<noteq> None"
  by (simp add: contains_def map_of_eq_None_iff)

lemma getitem_Some: "map_of d k = Some v \<Longrightarrow> getitem d k = Inr v"
  by (simp add: getitem_def)

lemma getitem_contains: "contains d k \<Longrightarrow> \<exists>v. getitem d k = Inr v"
  by (auto simp: contains_map_of getitem_def)

section \<open>The schema catalog\<close>

lemma run_leaves_catalog: "snd (DataSchemaRoadmapTool_run self query) = self"
  by (simp add: DataSchemaRoadmapTool_run_def split: sum.splits)

lemma run_list_tables:
  "lower query = ''list tables'' \<Longrightarrow>
   DataSchemaRoadmapTool_run self query = (Inr (join ''\<newline>'' (table_names self)), self)"
  by (simp add: DataSchemaRoadmapTool_run_def table_names_def)

lemma run_describe_found:
  assumes "lower kw = ''describe ''" and "map_of (schema_map self) t = Some e"
  shows "DataSchemaRoadmapTool_run self (kw @ t) =
           (Inr (''Table: '' @ t @ ''\<newline>Description: '' @ entry_description e
                 @ ''\<newline>Fields: '' @ join '', '' (entry_fields e)), self)"
  using assms
  by (simp add: DataSchemaRoadmapTool_run_def split1_describe list_getitem_def
      contains_map_of getitem_Some startswith_def)

lemma run_describe_missing:
  assumes "lower kw = ''describe ''" and "map_of (schema_map self) t = None"
  shows "DataSchemaRoadmapTool_run self (kw @ t) =
           (Inr (''Table '' @ t @ '' not found in the schema map.''), self)"
  using assms
  by (simp add: DataSchemaRoadmapTool_run_def split1_describe list_getitem_def
      contains_map_of startswith_def)

lemma table_names_init:
  "table_names DataSchemaRoadmapTool_init =
     [''the_pulse.reviews_forLS'', ''the_pulse.opportunities_monthly_forLS'',
      ''the_pulse.calls_monthly_forLS'', ''the_pulse.calls_forLS'',
      ''the_pulse.ad_expense_data_monthly_forLS'', ''the_pulse.ad_expense_data_forLS'',
      ''the_pulse.opportunities_forLS'']"
  by (simp add: table_names_def DataSchemaRoadmapTool_init_def)

lemma distinct_table_names: "distinct (table_names DataSchemaRoadmapTool_init)"
  by (simp add: table_names_init)

lemma distinct_lower_table_names: "distinct (map lower (table_names DataSchemaRoadmapTool_init))"
  unfolding table_names_init by code_simp

lemma init_entries_nonempty:
  "t \<in> set (table_names DataSchemaRoadmapTool_init) \<Longrightarrow>
   \<exists>e. map_of (schema_map DataSchemaRoadmapTool_init) t = Some e \<and> entry_fields e \<noteq> []"
  unfolding table_names_init by (auto simp: DataSchemaRoadmapTool_init_def)

lemma calls_entry:
  "getitem (schema_map DataSchemaRoadmapTool_init) ''the_pulse.calls_forLS''
     = Inr \<lparr>entry_description = ''Detailed call data'',
            entry_fields = [''ghl_location_id'', ''ghl_location_name'', ''call_date'',
                            ''Total_Calls'', ''Answered_Calls'', ''Missed_Calls'']\<rparr>"
  by (simp add: getitem_def DataSchemaRoadmapTool_init_def)

lemma differs_in_case_not_listed:
  assumes "k \<in> set (table_names DataSchemaRoadmapTool_init)" "lower t = lower k" "t \<noteq> k"
  shows "t \<notin> set (table_names DataSchemaRoadmapTool_init)"
proof
  assume "t \<in> set (table_names DataSchemaRoadmapTool_init)"
  moreover have "inj_on lower (set (table_names DataSchemaRoadmapTool_init))"
    using distinct_lower_table_names by (simp add: distinct_map)
  ultimately show False using assms by (auto dest: inj_onD)
qed

text \<open>
  C7. Every identifier that the list operation returns can be described: the input
  \<^verbatim>\<open>"list tables"\<close> returns the catalog's keys joined by line breaks, the same
  text in the same order after any earlier call; the keys are pairwise different; and
  for each key \<open>t\<close> the input \<^verbatim>\<open>"describe " + t\<close> returns the table's
  description and its field list, which is not empty, rather than the not-found
  message.
\<close>

theorem catalog_list_then_describe:
  "fst (DataSchemaRoadmapTool_run DataSchemaRoadmapTool_init ''list tables'')
     = Inr (join ''\<newline>'' (table_names DataSchemaRoadmapTool_init))
   \<and> fst (DataSchemaRoadmapTool_run
            (snd (DataSchemaRoadmapTool_run DataSchemaRoadmapTool_init query)) ''list tables'')
       = Inr (join ''\<newline>'' (table_names DataSchemaRoadmapTool_init))
   \<and> distinct (table_names DataSchemaRoadmapTool_init)
   \<and> (\<forall>t \<in> set (table_names DataSchemaRoadmapTool_init).
        \<exists>e. getitem (schema_map DataSchemaRoadmapTool_init) t = Inr e
          \<and> entry_fields e \<noteq> []
          \<and> fst (DataSchemaRoadmapTool_run DataSchemaRoadmapTool_init (''describe '' @ t))
              = Inr (''Table: '' @ t @ ''\<newline>Description: '' @ entry_description e
                     @ ''\<newline>Fields: '' @ join '', '' (entry_fields e)))"
proof (intro conjI ballI)
  show "fst (DataSchemaRoadmapTool_run DataSchemaRoadmapTool_init ''list tables'')
     = Inr (join ''\<newline>'' (table_names DataSchemaRoadmapTool_init))"
    by (simp add: run_list_tables lower_list_tables)
next
  show "fst (DataSchemaRoadmapTool_run
            (snd (DataSchemaRoadmapTool_run DataSchemaRoadmapTool_init query)) ''list tables'')
       = Inr (join ''\<newline>'' (table_names DataSchemaRoadmapTool_init))"
    by (simp add: run_leaves_catalog run_list_tables lower_list_tables)
next
  show "distinct (table_names DataSchemaRoadmapTool_init)" by (rule distinct_table_names)
next
  fix t assume "t \<in> set (table_names DataSchemaRoadmapTool_init)"
  then obtain e where e: "map_of (schema_map DataSchemaRoadmapTool_init) t = Some e"
      "entry_fields e \<noteq> []"
    using init_entries_nonempty by blast
  show "\<exists>e. getitem (schema_map DataSchemaRoadmapTool_init) t = Inr e
          \<and> entry_fields e \<noteq> []
          \<and> fst (DataSchemaRoadmapTool_run DataSchemaRoadmapTool_init (''describe '' @ t))
              = Inr (''Table: '' @ t @ ''\<newline>Description: '' @ entry_description e
                     @ ''\<newline>Fields: '' @ join '', '' (entry_fields e))"
    using e run_describe_found[OF lower_describe e(1)]
    by (intro exI[of _ e]) (simp add: getitem_Some)
qed

theorem catalog_list_then_describe_witness:
  "''the_pulse.calls_forLS'' \<in> set (table_names DataSchemaRoadmapTool_init)
   \<and> fst (DataSchemaRoadmapTool_run DataSchemaRoadmapTool_init ''describe the_pulse.calls_forLS'')
       = Inr ''Table: the_pulse.calls_forLS\<newline>Description: Detailed call data\<newline>Fields: ghl_location_id, ghl_location_name, call_date, Total_Calls, Answered_Calls, Missed_Calls''"
proof -
  have m: "''the_pulse.calls_forLS'' \<in> set (table_names DataSchemaRoadmapTool_init)"
    by (simp add: table_names_init)
  with catalog_list_then_describe obtain e where
    e: "getitem (schema_map DataSchemaRoadmapTool_init) ''the_pulse.calls_forLS'' = Inr e" and
    r: "fst (DataSchemaRoadmapTool_run DataSchemaRoadmapTool_init
              (''describe '' @ ''the_pulse.calls_forLS''))
          = Inr (''Table: '' @ ''the_pulse.calls_forLS'' @ ''\<newline>Description: ''
                 @ entry_description e @ ''\<newline>Fields: '' @ join '', '' (entry_fields e))"
    by blast
  from e calls_entry have
    "e = \<lparr>entry_description = ''Detailed call data'',
          entry_fields = [''ghl_location_id'', ''ghl_location_name'', ''call_date'',
                          ''Total_Calls'', ''Answered_Calls'', ''Missed_Calls'']\<rparr>"
    by simp
  with r m show ?thesis by simp
qed

text \<open>
  C9. Describing is idempotent: \<^verbatim>\<open>_run\<close> leaves the catalog object as it found it, so
  a second call with the same input, made on the object the first call left behind,
  returns the same output as the first. This holds for every catalog and every input,
  the \<^verbatim>\<open>"describe ..."\<close> inputs among them.
\<close>

theorem describe_idempotent:
  "fst (DataSchemaRoadmapTool_run (snd (DataSchemaRoadmapTool_run self query)) query)
     = fst (DataSchemaRoadmapTool_run self query)
   \<and> snd (DataSchemaRoadmapTool_run self query) = self"
  by (simp add: run_leaves_catalog)

text \<open>
  C10. The command keyword is matched on the lower-cased input, the table name is taken
  from the input as typed and compared with the catalog's keys exactly. For a keyword
  \<open>kw\<close> that is \<^verbatim>\<open>"describe "\<close> in any casing: a name \<open>t\<close> that is a key of the
  catalog is described; a name \<open>t\<close> that differs from a key \<open>k\<close> only in the case of
  its letters gets the not-found message. Any casing of \<^verbatim>\<open>"list tables"\<close> returns
  the listing.
\<close>

theorem describe_keyword_any_case_name_exact:
  assumes "lower kw = ''describe ''"
  shows "(t \<in> set (table_names DataSchemaRoadmapTool_init) \<longrightarrow>
           (\<exists>e. getitem (schema_map DataSchemaRoadmapTool_init) t = Inr e \<and>
             fst (DataSchemaRoadmapTool_run DataSchemaRoadmapTool_init (kw @ t))
               = Inr (''Table: '' @ t @ ''\<newline>Description: '' @ entry_description e
                      @ ''\<newline>Fields: '' @ join '', '' (entry_fields e))))
       \<and> (k \<in> set (table_names DataSchemaRoadmapTool_init) \<and> lower t = lower k \<and> t \<noteq> k \<longrightarrow>
            fst (DataSchemaRoadmapTool_run DataSchemaRoadmapTool_init (kw @ t))
               = Inr (''Table '' @ t @ '' not found in the schema map.''))
       \<and> (lower query = ''list tables'' \<longrightarrow>
            fst (DataSchemaRoadmapTool_run DataSchemaRoadmapTool_init query)
               = Inr (join ''\<newline>'' (table_names DataSchemaRoadmapTool_init)))"
proof (intro conjI impI)
  assume "t \<in> set (table_names DataSchemaRoadmapTool_init)"
  then obtain e where e: "map_of (schema_map DataSchemaRoadmapTool_init) t = Some e"
    using init_entries_nonempty by blast
  show "\<exists>e. getitem (schema_map DataSchemaRoadmapTool_init) t = Inr e \<and>
             fst (DataSchemaRoadmapTool_run DataSchemaRoadmapTool_init (kw @ t))
               = Inr (''Table: '' @ t @ ''\<newline>Description: '' @ entry_description e
                      @ ''\<newline>Fields: '' @ join '', '' (entry_fields e))"
    using run_describe_found[OF assms e] by (intro exI[of _ e]) (simp add: getitem_Some e)
next
  assume "k \<in> set (table_names DataSchemaRoadmapTool_init) \<and> lower t = lower k \<and> t \<noteq> k"
  then have "t \<notin> set (table_names DataSchemaRoadmapTool_init)"
    using differs_in_case_not_listed by blast
  then have "map_of (schema_map DataSchemaRoadmapTool_init) t = None"
    by (simp add: table_names_def map_of_eq_None_iff)
  from run_describe_missing[OF assms this]
  show "fst (DataSchemaRoadmapTool_run DataSchemaRoadmapTool_init (kw @ t))
               = Inr (''Table '' @ t @ '' not found in the schema map.'')"
    by simp
next
  assume "lower query = ''list tables''"
  then show "fst (DataSchemaRoadmapTool_run DataSchemaRoadmapTool_init query)
               = Inr (join ''\<newline>'' (table_names DataSchemaRoadmapTool_init))"
    by (simp add: run_list_tables)
qed

theorem describe_keyword_any_case_name_exact_witness:
  "lower ''DESCRIBE '' = ''describe ''
   \<and> fst (DataSchemaRoadmapTool_run DataSchemaRoadmapTool_init ''DESCRIBE the_pulse.calls_forLS'')
       = Inr ''Table: the_pulse.calls_forLS\<newline>Description: Detailed call data\<newline>Fields: ghl_location_id, ghl_location_name, call_date, Total_Calls, Answered_Calls, Missed_Calls''
   \<and> fst (DataSchemaRoadmapTool_run DataSchemaRoadmapTool_init ''DESCRIBE the_pulse.calls_forls'')
       = Inr ''Table the_pulse.calls_forls not found in the schema map.''
   \<and> fst (DataSchemaRoadmapTool_run DataSchemaRoadmapTool_init ''LIST Tables'')
       = Inr (join ''\<newline>'' (table_names DataSchemaRoadmapTool_init))"
proof -
  have kw: "lower ''DESCRIBE '' = ''describe ''" by code_simp
  have m: "''the_pulse.calls_forLS'' \<in> set (table_names DataSchemaRoadmapTool_init)"
    by (simp add: table_names_init)
  have lo: "lower ''the_pulse.calls_forls'' = lower ''the_pulse.calls_forLS''" by code_simp
  have li: "lower ''LIST Tables'' = ''list tables''" by code_simp
  note found = describe_keyword_any_case_name_exact[OF kw,
      of "''the_pulse.calls_forLS''" "''the_pulse.calls_forLS''" "''LIST Tables''"]
  note missing = describe_keyword_any_case_name_exact[OF kw,
      of "''the_pulse.calls_forls''" "''the_pulse.calls_forLS''" "''LIST Tables''"]
  from found m obtain e where
    e: "getitem (schema_map DataSchemaRoadmapTool_init) ''the_pulse.calls_forLS'' = Inr e" and
    r: "fst (DataSchemaRoadmapTool_run DataSchemaRoadmapTool_init
              (''DESCRIBE '' @ ''the_pulse.calls_forLS''))
          = Inr (''Table: '' @ ''the_pulse.calls_forLS'' @ ''\<newline>Description: ''
                 @ entry_description e @ ''\<newline>Fields: '' @ join '', '' (entry_fields e))"
    by blast
  from e calls_entry have
    "e = \<lparr>entry_description = ''Detailed call data'',
          entry_fields = [''ghl_location_id'', ''ghl_location_name'', ''call_date'',
                          ''Total_Calls'', ''Answered_Calls'', ''Missed_Calls'']\<rparr>"
    by simp
  with r have a: "fst (DataSchemaRoadmapTool_run DataSchemaRoadmapTool_init
                        ''DESCRIBE the_pulse.calls_forLS'')
       = Inr ''Table: the_pulse.calls_forLS\<newline>Description: Detailed call data\<newline>Fields: ghl_location_id, ghl_location_name, call_date, Total_Calls, Answered_Calls, Missed_Calls''"
    by simp
  from missing m lo have b: "fst (DataSchemaRoadmapTool_run DataSchemaRoadmapTool_init
                        ''DESCRIBE the_pulse.calls_forls'')
       = Inr ''Table the_pulse.calls_forls not found in the schema map.''"
    by simp
  from found li have c: "fst (DataSchemaRoadmapTool_run DataSchemaRoadmapTool_init ''LIST Tables'')
       = Inr (join ''\<newline>'' (table_names DataSchemaRoadmapTool_init))"
    by simp
  from kw a b c show ?thesis by simp
qed


section \<open>The query executor\<close>







text \<open>The one row with one field that \<^verbatim>\<open>SELECT 1\<close> yields is rendered like this.\<close>

lemma select_1_text:
  "repr_list (repr_dict repr_bq) [[(''f0_'', BqInt 1)]]
     = ''[{'' @ [CHR 0x27] @ ''f0_'' @ [CHR 0x27] @ '': 1}]''"
  by code_simp


section \<open>The table contract providers\<close>

subsection \<open>\<^verbatim>\<open>CallsForLSTool\<close>\<close>

lemma CallsForLSTool_getitem_fields:
  "getitem CallsForLSTool_table_info ''fields'' = Inr (StrDict CallsForLSTool_fields)"
  by (simp add: getitem_def CallsForLSTool_table_info_def)

lemma CallsForLSTool_full_query_stored:
  "(''full_query'', Str CallsForLSTool_full_query) \<in> set CallsForLSTool_table_info"
  by (simp add: CallsForLSTool_table_info_def)

lemma CallsForLSTool_getitem_full_query:
  "getitem CallsForLSTool_table_info ''full_query'' = Inr (Str CallsForLSTool_full_query)"
  by (simp add: getitem_def CallsForLSTool_table_info_def)

lemma CallsForLSTool_full_query_has_newline: "CHR 0x0A \<in> set CallsForLSTool_full_query"
  by (simp add: CallsForLSTool_full_query_def)

lemma CallsForLSTool_run_structure:
  "CallsForLSTool_run ''structure'' = Inr (repr_dict repr_value CallsForLSTool_table_info)"
  by (simp add: CallsForLSTool_run_def lower_structure)

lemma CallsForLSTool_run_unknown:
  assumes "lower topic \<noteq> ''structure''"
    and "lower topic \<notin> set (map fst CallsForLSTool_fields)"
    and "lower topic \<notin> set attribute_topics"
  shows "CallsForLSTool_run topic = Inr (''No information found for query: '' @ lower topic)"
  using assms
  by (simp add: CallsForLSTool_run_def Let_def CallsForLSTool_getitem_fields contains_def attribute_topics_def)

lemma CallsForLSTool_no_structure_field: "\<not> contains CallsForLSTool_fields ''structure''"
  by (simp add: contains_def CallsForLSTool_fields_def)

lemma CallsForLSTool_run_field:
  assumes "contains CallsForLSTool_fields (lower topic)"
  shows "\<exists>v. getitem CallsForLSTool_fields (lower topic) = Inr v
           \<and> CallsForLSTool_run topic
               = Inr (''Field '' @ [CHR 0x27] @ lower topic @ [CHR 0x27] @ '': '' @ v)"
proof -
  from assms CallsForLSTool_no_structure_field have "lower topic \<noteq> ''structure''"
    by auto
  moreover from assms obtain v where "getitem CallsForLSTool_fields (lower topic) = Inr v"
    using getitem_contains by blast
  ultimately show ?thesis
    using assms by (simp add: CallsForLSTool_run_def Let_def CallsForLSTool_getitem_fields)
qed

lemma CallsForLSTool_getitem_handled:
  "k \<in> set [''clustering'', ''partitioning'', ''grouping'', ''full_query'', ''source_table''] \<Longrightarrow>
   \<exists>v. getitem CallsForLSTool_table_info k = Inr v"
  by (auto simp: getitem_def CallsForLSTool_table_info_def)

lemma CallsForLSTool_run_returns: "\<exists>s. CallsForLSTool_run topic = Inr s"
proof (cases "contains CallsForLSTool_fields (lower topic)")
  case True
  then show ?thesis using CallsForLSTool_run_field by blast
next
  case False
  note h = CallsForLSTool_getitem_handled[of "lower topic"]
  show ?thesis
    using False h
    by (auto simp: CallsForLSTool_run_def Let_def CallsForLSTool_getitem_fields split: sum.splits)
qed

subsection \<open>\<^verbatim>\<open>AdExpenseDataForLSTool\<close>\<close>

lemma AdExpenseDataForLSTool_getitem_fields:
  "getitem AdExpenseDataForLSTool_table_info ''fields'' = Inr (StrDict AdExpenseDataForLSTool_fields)"
  by (simp add: getitem_def AdExpenseDataForLSTool_table_info_def)

lemma AdExpenseDataForLSTool_full_query_stored:
  "(''full_query'', Str AdExpenseDataForLSTool_full_query) \<in> set AdExpenseDataForLSTool_table_info"
  by (simp add: AdExpenseDataForLSTool_table_info_def)

lemma AdExpenseDataForLSTool_getitem_full_query:
  "getitem AdExpenseDataForLSTool_table_info ''full_query'' = Inr (Str AdExpenseDataForLSTool_full_query)"
  by (simp add: getitem_def AdExpenseDataForLSTool_table_info_def)

lemma AdExpenseDataForLSTool_full_query_has_newline: "CHR 0x0A \<in> set AdExpenseDataForLSTool_full_query"
  by (simp add: AdExpenseDataForLSTool_full_query_def)

lemma AdExpenseDataForLSTool_run_structure:
  "AdExpenseDataForLSTool_run ''structure'' = Inr (repr_dict repr_value AdExpenseDataForLSTool_table_info)"
  by (simp add: AdExpenseDataForLSTool_run_def lower_structure)

lemma AdExpenseDataForLSTool_run_unknown:
  assumes "lower topic \<noteq> ''structure''"
    and "lower topic \<notin> set (map fst AdExpenseDataForLSTool_fields)"
    and "lower topic \<notin> set attribute_topics"
  shows "AdExpenseDataForLSTool_run topic = Inr (''No information found for query: '' @ lower topic)"
  using assms
  by (simp add: AdExpenseDataForLSTool_run_def Let_def AdExpenseDataForLSTool_getitem_fields contains_def attribute_topics_def)

lemma AdExpenseDataForLSTool_no_structure_field: "\<not> contains AdExpenseDataForLSTool_fields ''structure''"
  by (simp add: contains_def AdExpenseDataForLSTool_fields_def)

lemma AdExpenseDataForLSTool_run_field:
  assumes "contains AdExpenseDataForLSTool_fields (lower topic)"
  shows "\<exists>v. getitem AdExpenseDataForLSTool_fields (lower topic) = Inr v
           \<and> AdExpenseDataForLSTool_run topic
               = Inr (''Field '' @ [CHR 0x27] @ lower topic @ [CHR 0x27] @ '': '' @ v)"
proof -
  from assms AdExpenseDataForLSTool_no_structure_field have "lower topic \<noteq> ''structure''"
    by auto
  moreover from assms obtain v where "getitem AdExpenseDataForLSTool_fields (lower topic) = Inr v"
    using getitem_contains by blast
  ultimately show ?thesis
    using assms by (simp add: AdExpenseDataForLSTool_run_def Let_def AdExpenseDataForLSTool_getitem_fields)
qed

lemma AdExpenseDataForLSTool_run_returns: "\<exists>s. AdExpenseDataForLSTool_run topic = Inr s"
proof (cases "contains AdExpenseDataForLSTool_fields (lower topic)")
  case True
  then show ?thesis using AdExpenseDataForLSTool_run_field by blast
next
  case False
  show ?thesis
    using False
    by (auto simp: AdExpenseDataForLSTool_run_def Let_def AdExpenseDataForLSTool_getitem_fields split: sum.splits)
qed

subsection \<open>\<^verbatim>\<open>ReviewsForLSTool\<close>\<close>

lemma ReviewsForLSTool_getitem_fields:
  "getitem ReviewsForLSTool_table_info ''fields'' = Inr (StrDict ReviewsForLSTool_fields)"
  by (simp add: getitem_def ReviewsForLSTool_table_info_def)

lemma ReviewsForLSTool_full_query_stored:
  "(''full_query'', Str ReviewsForLSTool_full_query) \<in> set ReviewsForLSTool_table_info"
  by (simp add: ReviewsForLSTool_table_info_def)

lemma ReviewsForLSTool_getitem_full_query:
  "getitem ReviewsForLSTool_table_info ''full_query'' = Inr (Str ReviewsForLSTool_full_query)"
  by (simp add: getitem_def ReviewsForLSTool_table_info_def)

lemma ReviewsForLSTool_full_query_has_newline: "CHR 0x0A \<in> set ReviewsForLSTool_full_query"
  by (simp add: ReviewsForLSTool_full_query_def)

lemma ReviewsForLSTool_run_structure:
  "ReviewsForLSTool_run ''structure'' = Inr (repr_dict repr_value ReviewsForLSTool_table_info)"
  by (simp add: ReviewsForLSTool_run_def lower_structure)

lemma ReviewsForLSTool_run_unknown:
  assumes "lower topic \<noteq> ''structure''"
    and "lower topic \<notin> set (map fst ReviewsForLSTool_fields)"
    and "lower topic \<notin> set attribute_topics"
  shows "ReviewsForLSTool_run topic = Inr (''No information found for query: '' @ lower topic)"
  using assms
  by (simp add: ReviewsForLSTool_run_def Let_def ReviewsForLSTool_getitem_fields contains_def attribute_topics_def)

lemma ReviewsForLSTool_no_structure_field: "\<not> contains ReviewsForLSTool_fields ''structure''"
  by (simp add: contains_def ReviewsForLSTool_fields_def)

lemma ReviewsForLSTool_run_field:
  assumes "contains ReviewsForLSTool_fields (lower topic)"
  shows "\<exists>v. getitem ReviewsForLSTool_fields (lower topic) = Inr v
           \<and> ReviewsForLSTool_run topic
               = Inr (''Field '' @ [CHR 0x27] @ lower topic @ [CHR 0x27] @ '': '' @ v)"
proof -
  from assms ReviewsForLSTool_no_structure_field have "lower topic \<noteq> ''structure''"
    by auto
  moreover from assms obtain v where "getitem ReviewsForLSTool_fields (lower topic) = Inr v"
    using getitem_contains by blast
  ultimately show ?thesis
    using assms by (simp add: ReviewsForLSTool_run_def Let_def ReviewsForLSTool_getitem_fields)
qed

lemma ReviewsForLSTool_run_returns: "\<exists>s. ReviewsForLSTool_run topic = Inr s"
proof (cases "contains ReviewsForLSTool_fields (lower topic)")
  case True
  then show ?thesis using ReviewsForLSTool_run_field by blast
next
  case False
  show ?thesis
    using False
    by (auto simp: ReviewsForLSTool_run_def Let_def ReviewsForLSTool_getitem_fields split: sum.splits)
qed

subsection \<open>\<^verbatim>\<open>OpportunitiesForLSTool\<close>\<close>

lemma OpportunitiesForLSTool_getitem_fields:
  "getitem OpportunitiesForLSTool_table_info ''fields'' = Inr (StrDict OpportunitiesForLSTool_fields)"
  by (simp add: getitem_def OpportunitiesForLSTool_table_info_def)

lemma OpportunitiesForLSTool_full_query_stored:
  "(''full_query'', Str OpportunitiesForLSTool_full_query) \<in> set OpportunitiesForLSTool_table_info"
  by (simp add: OpportunitiesForLSTool_table_info_def)

lemma OpportunitiesForLSTool_getitem_full_query:
  "getitem OpportunitiesForLSTool_table_info ''full_query'' = Inr (Str OpportunitiesForLSTool_full_query)"
  by (simp add: getitem_def OpportunitiesForLSTool_table_info_def)

lemma OpportunitiesForLSTool_full_query_has_newline: "CHR 0x0A \<in> set OpportunitiesForLSTool_full_query"
  by (simp add: OpportunitiesForLSTool_full_query_def)

lemma OpportunitiesForLSTool_run_structure:
  "OpportunitiesForLSTool_run ''structure'' = Inr (repr_dict repr_value OpportunitiesForLSTool_table_info)"
  by (simp add: OpportunitiesForLSTool_run_def lower_structure)

lemma OpportunitiesForLSTool_run_unknown:
  assumes "lower topic \<noteq> ''structure''"
    and "lower topic \<notin> set (map fst OpportunitiesForLSTool_fields)"
    and "lower topic \<notin> set attribute_topics"
  shows "OpportunitiesForLSTool_run topic = Inr (''No information found for query: '' @ lower topic)"
  using assms
  by (simp add: OpportunitiesForLSTool_run_def Let_def OpportunitiesForLSTool_getitem_fields contains_def attribute_topics_def)

lemma OpportunitiesForLSTool_no_structure_field: "\<not> contains OpportunitiesForLSTool_fields ''structure''"
  by (simp add: contains_def OpportunitiesForLSTool_fields_def)

lemma OpportunitiesForLSTool_run_field:
  assumes "contains OpportunitiesForLSTool_fields (lower topic)"
  shows "\<exists>v. getitem OpportunitiesForLSTool_fields (lower topic) = Inr v
           \<and> OpportunitiesForLSTool_run topic
               = Inr (''Field '' @ [CHR 0x27] @ lower topic @ [CHR 0x27] @ '': '' @ v)"
proof -
  from assms OpportunitiesForLSTool_no_structure_field have "lower topic \<noteq> ''structure''"
    by auto
  moreover from assms obtain v where "getitem OpportunitiesForLSTool_fields (lower topic) = Inr v"
    using getitem_contains by blast
  ultimately show ?thesis
    using assms by (simp add: OpportunitiesForLSTool_run_def Let_def OpportunitiesForLSTool_getitem_fields)
qed

lemma OpportunitiesForLSTool_getitem_handled:
  "k \<in> set [''clustering'', ''partitioning'', ''grouping'', ''full_query'', ''source_table''] \<Longrightarrow>
   \<exists>v. getitem OpportunitiesForLSTool_table_info k = Inr v"
  by (auto simp: getitem_def OpportunitiesForLSTool_table_info_def)

lemma OpportunitiesForLSTool_run_returns: "\<exists>s. OpportunitiesForLSTool_run topic = Inr s"
proof (cases "contains OpportunitiesForLSTool_fields (lower topic)")
  case True
  then show ?thesis using OpportunitiesForLSTool_run_field by blast
next
  case False
  note h = OpportunitiesForLSTool_getitem_handled[of "lower topic"]
  show ?thesis
    using False h
    by (auto simp: OpportunitiesForLSTool_run_def Let_def OpportunitiesForLSTool_getitem_fields split: sum.splits)
qed

subsection \<open>\<^verbatim>\<open>AdExpenseDataMonthlyForLSTool\<close>\<close>

lemma AdExpenseDataMonthlyForLSTool_getitem_fields:
  "getitem AdExpenseDataMonthlyForLSTool_table_info ''fields'' = Inr (StrDict AdExpenseDataMonthlyForLSTool_fields)"
  by (simp add: getitem_def AdExpenseDataMonthlyForLSTool_table_info_def)

lemma AdExpenseDataMonthlyForLSTool_full_query_stored:
  "(''full_query'', Str AdExpenseDataMonthlyForLSTool_full_query) \<in> set AdExpenseDataMonthlyForLSTool_table_info"
  by (simp add: AdExpenseDataMonthlyForLSTool_table_info_def)

lemma AdExpenseDataMonthlyForLSTool_getitem_full_query:
  "getitem AdExpenseDataMonthlyForLSTool_table_info ''full_query'' = Inr (Str AdExpenseDataMonthlyForLSTool_full_query)"
  by (simp add: getitem_def AdExpenseDataMonthlyForLSTool_table_info_def)

lemma AdExpenseDataMonthlyForLSTool_full_query_has_newline: "CHR 0x0A \<in> set AdExpenseDataMonthlyForLSTool_full_query"
  by (simp add: AdExpenseDataMonthlyForLSTool_full_query_def)

lemma AdExpenseDataMonthlyForLSTool_run_structure:
  "AdExpenseDataMonthlyForLSTool_run ''structure'' = Inr (repr_dict repr_value AdExpenseDataMonthlyForLSTool_table_info)"
  by (simp add: AdExpenseDataMonthlyForLSTool_run_def lower_structure)

lemma AdExpenseDataMonthlyForLSTool_run_unknown:
  assumes "lower topic \<noteq> ''structure''"
    and "lower topic \<notin> set (map fst AdExpenseDataMonthlyForLSTool_fields)"
    and "lower topic \<notin> set attribute_topics"
  shows "AdExpenseDataMonthlyForLSTool_run topic = Inr (''No information found for query: '' @ lower topic)"
  using assms
  by (simp add: AdExpenseDataMonthlyForLSTool_run_def Let_def AdExpenseDataMonthlyForLSTool_getitem_fields contains_def attribute_topics_def)

lemma AdExpenseDataMonthlyForLSTool_no_structure_field: "\<not> contains AdExpenseDataMonthlyForLSTool_fields ''structure''"
  by (simp add: contains_def AdExpenseDataMonthlyForLSTool_fields_def)

lemma AdExpenseDataMonthlyForLSTool_run_field:
  assumes "contains AdExpenseDataMonthlyForLSTool_fields (lower topic)"
  shows "\<exists>v. getitem AdExpenseDataMonthlyForLSTool_fields (lower topic) = Inr v
           \<and> AdExpenseDataMonthlyForLSTool_run topic
               = Inr (''Field '' @ [CHR 0x27] @ lower topic @ [CHR 0x27] @ '': '' @ v)"
proof -
  from assms AdExpenseDataMonthlyForLSTool_no_structure_field have "lower topic \<noteq> ''structure''"
    by auto
  moreover from assms obtain v where "getitem AdExpenseDataMonthlyForLSTool_fields (lower topic) = Inr v"
    using getitem_contains by blast
  ultimately show ?thesis
    using assms by (simp add: AdExpenseDataMonthlyForLSTool_run_def Let_def AdExpenseDataMonthlyForLSTool_getitem_fields)
qed

lemma AdExpenseDataMonthlyForLSTool_getitem_handled:
  "k \<in> set [''clustering'', ''partitioning'', ''grouping'', ''full_query'', ''time_periods'', ''source_table''] \<Longrightarrow>
   \<exists>v. getitem AdExpenseDataMonthlyForLSTool_table_info k = Inr v"
  by (auto simp: getitem_def AdExpenseDataMonthlyForLSTool_table_info_def)

lemma AdExpenseDataMonthlyForLSTool_run_returns: "\<exists>s. AdExpenseDataMonthlyForLSTool_run topic = Inr s"
proof (cases "contains AdExpenseDataMonthlyForLSTool_fields (lower topic)")
  case True
  then show ?thesis using AdExpenseDataMonthlyForLSTool_run_field by blast
next
  case False
  note h = AdExpenseDataMonthlyForLSTool_getitem_handled[of "lower topic"]
  show ?thesis
    using False h
    by (auto simp: AdExpenseDataMonthlyForLSTool_run_def Let_def AdExpenseDataMonthlyForLSTool_getitem_fields split: sum.splits)
qed

subsection \<open>\<^verbatim>\<open>OpportunitiesMonthlyForLSTool\<close>\<close>

lemma OpportunitiesMonthlyForLSTool_getitem_fields:
  "getitem OpportunitiesMonthlyForLSTool_table_info ''fields'' = Inr (StrDict OpportunitiesMonthlyForLSTool_fields)"
  by (simp add: getitem_def OpportunitiesMonthlyForLSTool_table_info_def)

lemma OpportunitiesMonthlyForLSTool_full_query_stored:
  "(''full_query'', Str OpportunitiesMonthlyForLSTool_full_query) \<in> set OpportunitiesMonthlyForLSTool_table_info"
  by (simp add: OpportunitiesMonthlyForLSTool_table_info_def)

lemma OpportunitiesMonthlyForLSTool_getitem_full_query:
  "getitem OpportunitiesMonthlyForLSTool_table_info ''full_query'' = Inr (Str OpportunitiesMonthlyForLSTool_full_query)"
  by (simp add: getitem_def OpportunitiesMonthlyForLSTool_table_info_def)

lemma OpportunitiesMonthlyForLSTool_full_query_has_newline: "CHR 0x0A \<in> set OpportunitiesMonthlyForLSTool_full_query"
  by (simp add: OpportunitiesMonthlyForLSTool_full_query_def)

lemma OpportunitiesMonthlyForLSTool_run_structure:
  "OpportunitiesMonthlyForLSTool_run ''structure'' = Inr (repr_dict repr_value OpportunitiesMonthlyForLSTool_table_info)"
  by (simp add: OpportunitiesMonthlyForLSTool_run_def lower_structure)

lemma OpportunitiesMonthlyForLSTool_run_unknown:
  assumes "lower topic \<noteq> ''structure''"
    and "lower topic \<notin> set (map fst OpportunitiesMonthlyForLSTool_fields)"
    and "lower topic \<notin> set attribute_topics"
  shows "OpportunitiesMonthlyForLSTool_run topic = Inr (''No information found for query: '' @ lower topic)"
  using assms
  by (simp add: OpportunitiesMonthlyForLSTool_run_def Let_def OpportunitiesMonthlyForLSTool_getitem_fields contains_def attribute_topics_def)

lemma OpportunitiesMonthlyForLSTool_no_structure_field: "\<not> contains OpportunitiesMonthlyForLSTool_fields ''structure''"
  by (simp add: contains_def OpportunitiesMonthlyForLSTool_fields_def)

lemma OpportunitiesMonthlyForLSTool_run_field:
  assumes "contains OpportunitiesMonthlyForLSTool_fields (lower topic)"
  shows "\<exists>v. getitem OpportunitiesMonthlyForLSTool_fields (lower topic) = Inr v
           \<and> OpportunitiesMonthlyForLSTool_run topic
               = Inr (''Field '' @ [CHR 0x27] @ lower topic @ [CHR 0x27] @ '': '' @ v)"
proof -
  from assms OpportunitiesMonthlyForLSTool_no_structure_field have "lower topic \<noteq> ''structure''"
    by auto
  moreover from assms obtain v where "getitem OpportunitiesMonthlyForLSTool_fields (lower topic) = Inr v"
    using getitem_contains by blast
  ultimately show ?thesis
    using assms by (simp add: OpportunitiesMonthlyForLSTool_run_def Let_def OpportunitiesMonthlyForLSTool_getitem_fields)
qed

lemma OpportunitiesMonthlyForLSTool_getitem_handled:
  "k \<in> set [''time_periods'', ''grouping'', ''full_query''] \<Longrightarrow>
   \<exists>v. getitem OpportunitiesMonthlyForLSTool_table_info k = Inr v"
  by (auto simp: getitem_def OpportunitiesMonthlyForLSTool_table_info_def)

lemma OpportunitiesMonthlyForLSTool_run_returns: "\<exists>s. OpportunitiesMonthlyForLSTool_run topic = Inr s"
proof (cases "contains OpportunitiesMonthlyForLSTool_fields (lower topic)")
  case True
  then show ?thesis using OpportunitiesMonthlyForLSTool_run_field by blast
next
  case False
  note h = OpportunitiesMonthlyForLSTool_getitem_handled[of "lower topic"]
  show ?thesis
    using False h
    by (auto simp: OpportunitiesMonthlyForLSTool_run_def Let_def OpportunitiesMonthlyForLSTool_getitem_fields split: sum.splits)
qed

subsection \<open>\<^verbatim>\<open>CallsMonthlyForLSTool\<close>\<close>

lemma CallsMonthlyForLSTool_getitem_fields:
  "getitem CallsMonthlyForLSTool_table_info ''fields'' = Inr (StrDict CallsMonthlyForLSTool_fields)"
  by (simp add: getitem_def CallsMonthlyForLSTool_table_info_def)

lemma CallsMonthlyForLSTool_full_query_stored:
  "(''full_query'', Str CallsMonthlyForLSTool_full_query) \<in> set CallsMonthlyForLSTool_table_info"
  by (simp add: CallsMonthlyForLSTool_table_info_def)

lemma CallsMonthlyForLSTool_getitem_full_query:
  "getitem CallsMonthlyForLSTool_table_info ''full_query'' = Inr (Str CallsMonthlyForLSTool_full_query)"
  by (simp add: getitem_def CallsMonthlyForLSTool_table_info_def)

lemma CallsMonthlyForLSTool_full_query_has_newline: "CHR 0x0A \<in> set CallsMonthlyForLSTool_full_query"
  by (simp add: CallsMonthlyForLSTool_full_query_def)

lemma CallsMonthlyForLSTool_run_structure:
  "CallsMonthlyForLSTool_run ''structure'' = Inr (repr_dict repr_value CallsMonthlyForLSTool_table_info)"
  by (simp add: CallsMonthlyForLSTool_run_def lower_structure)

lemma CallsMonthlyForLSTool_run_unknown:
  assumes "lower topic \<noteq> ''structure''"
    and "lower topic \<notin> set (map fst CallsMonthlyForLSTool_fields)"
    and "lower topic \<notin> set attribute_topics"
  shows "CallsMonthlyForLSTool_run topic = Inr (''No information found for query: '' @ lower topic)"
  using assms
  by (simp add: CallsMonthlyForLSTool_run_def Let_def CallsMonthlyForLSTool_getitem_fields contains_def attribute_topics_def)

lemma CallsMonthlyForLSTool_no_structure_field: "\<not> contains CallsMonthlyForLSTool_fields ''structure''"
  by (simp add: contains_def CallsMonthlyForLSTool_fields_def)

lemma CallsMonthlyForLSTool_run_field:
  assumes "contains CallsMonthlyForLSTool_fields (lower topic)"
  shows "\<exists>v. getitem CallsMonthlyForLSTool_fields (lower topic) = Inr v
           \<and> CallsMonthlyForLSTool_run topic
               = Inr (''Field '' @ [CHR 0x27] @ lower topic @ [CHR 0x27] @ '': '' @ v)"
proof -
  from assms CallsMonthlyForLSTool_no_structure_field have "lower topic \<noteq> ''structure''"
    by auto
  moreover from assms obtain v where "getitem CallsMonthlyForLSTool_fields (lower topic) = Inr v"
    using getitem_contains by blast
  ultimately show ?thesis
    using assms by (simp add: CallsMonthlyForLSTool_run_def Let_def CallsMonthlyForLSTool_getitem_fields)
qed

lemma CallsMonthlyForLSTool_getitem_handled:
  "k \<in> set [''time_periods'', ''grouping'', ''full_query''] \<Longrightarrow>
   \<exists>v. getitem CallsMonthlyForLSTool_table_info k = Inr v"
  by (auto simp: getitem_def CallsMonthlyForLSTool_table_info_def)

lemma CallsMonthlyForLSTool_run_returns: "\<exists>s. CallsMonthlyForLSTool_run topic = Inr s"
proof (cases "contains CallsMonthlyForLSTool_fields (lower topic)")
  case True
  then show ?thesis using CallsMonthlyForLSTool_run_field by blast
next
  case False
  note h = CallsMonthlyForLSTool_getitem_handled[of "lower topic"]
  show ?thesis
    using False h
    by (auto simp: CallsMonthlyForLSTool_run_def Let_def CallsMonthlyForLSTool_getitem_fields split: sum.splits)
qed

subsection \<open>All providers\<close>

lemma field_names_simps:
  "field_names CallsForLSTool = map fst CallsForLSTool_fields"
  "field_names AdExpenseDataForLSTool = map fst AdExpenseDataForLSTool_fields"
  "field_names ReviewsForLSTool = map fst ReviewsForLSTool_fields"
  "field_names OpportunitiesForLSTool = map fst OpportunitiesForLSTool_fields"
  "field_names AdExpenseDataMonthlyForLSTool = map fst AdExpenseDataMonthlyForLSTool_fields"
  "field_names OpportunitiesMonthlyForLSTool = map fst OpportunitiesMonthlyForLSTool_fields"
  "field_names CallsMonthlyForLSTool = map fst CallsMonthlyForLSTool_fields"
  by (simp_all add: field_names_def
      CallsForLSTool_getitem_fields
      AdExpenseDataForLSTool_getitem_fields
      ReviewsForLSTool_getitem_fields
      OpportunitiesForLSTool_getitem_fields
      AdExpenseDataMonthlyForLSTool_getitem_fields
      OpportunitiesMonthlyForLSTool_getitem_fields
      CallsMonthlyForLSTool_getitem_fields)

text \<open>No provider raises, whatever the topic: every dictionary access it makes succeeds.\<close>

lemma provider_run_returns: "\<exists>s. provider_run p topic = Inr s"
  by (cases p) (simp_all add:
      CallsForLSTool_run_returns
      AdExpenseDataForLSTool_run_returns
      ReviewsForLSTool_run_returns
      OpportunitiesForLSTool_run_returns
      AdExpenseDataMonthlyForLSTool_run_returns
      OpportunitiesMonthlyForLSTool_run_returns
      CallsMonthlyForLSTool_run_returns)

text \<open>
  A topic whose lower-cased form is a key of \<^verbatim>\<open>fields\<close> gets that field's
  provenance string. So a field whose name has no capital letter is found under any
  casing of its name.
\<close>

lemma provider_run_field:
  assumes "lower topic \<in> set (field_names p)"
  shows "\<exists>v. provider_run p topic
               = Inr (''Field '' @ [CHR 0x27] @ lower topic @ [CHR 0x27] @ '': '' @ v)"
proof (cases p)
  case CallsForLSTool
  with assms have "contains CallsForLSTool_fields (lower topic)"
    by (simp add: field_names_simps contains_def)
  from CallsForLSTool_run_field[OF this] CallsForLSTool show ?thesis by auto
next
  case AdExpenseDataForLSTool
  with assms have "contains AdExpenseDataForLSTool_fields (lower topic)"
    by (simp add: field_names_simps contains_def)
  from AdExpenseDataForLSTool_run_field[OF this] AdExpenseDataForLSTool show ?thesis by auto
next
  case ReviewsForLSTool
  with assms have "contains ReviewsForLSTool_fields (lower topic)"
    by (simp add: field_names_simps contains_def)
  from ReviewsForLSTool_run_field[OF this] ReviewsForLSTool show ?thesis by auto
next
  case OpportunitiesForLSTool
  with assms have "contains OpportunitiesForLSTool_fields (lower topic)"
    by (simp add: field_names_simps contains_def)
  from OpportunitiesForLSTool_run_field[OF this] OpportunitiesForLSTool show ?thesis by auto
next
  case AdExpenseDataMonthlyForLSTool
  with assms have "contains AdExpenseDataMonthlyForLSTool_fields (lower topic)"
    by (simp add: field_names_simps contains_def)
  from AdExpenseDataMonthlyForLSTool_run_field[OF this] AdExpenseDataMonthlyForLSTool show ?thesis by auto
next
  case OpportunitiesMonthlyForLSTool
  with assms have "contains OpportunitiesMonthlyForLSTool_fields (lower topic)"
    by (simp add: field_names_simps contains_def)
  from OpportunitiesMonthlyForLSTool_run_field[OF this] OpportunitiesMonthlyForLSTool show ?thesis by auto
next
  case CallsMonthlyForLSTool
  with assms have "contains CallsMonthlyForLSTool_fields (lower topic)"
    by (simp add: field_names_simps contains_def)
  from CallsMonthlyForLSTool_run_field[OF this] CallsMonthlyForLSTool show ?thesis by auto
qed

text \<open>
  C1. A field whose name has a capital letter cannot be retrieved. \<^verbatim>\<open>_run\<close>
  lower-cases the topic and then looks it up among the keys of \<^verbatim>\<open>fields\<close>, which
  are compared exactly: \<^verbatim>\<open>Total_Calls\<close> is a key of the calls provider and
  \<^verbatim>\<open>Leads\<close> a key of the opportunities provider, and asking for either, typed
  exactly as the key, returns the no-information message for the lower-cased name
  instead of the field's provenance string.
\<close>

theorem field_with_capital_not_retrievable:
  "''Total_Calls'' \<in> set (field_names CallsForLSTool)
   \<and> CallsForLSTool_run ''Total_Calls'' = Inr ''No information found for query: total_calls''
   \<and> ''Leads'' \<in> set (field_names OpportunitiesForLSTool)
   \<and> OpportunitiesForLSTool_run ''Leads'' = Inr ''No information found for query: leads''"
proof (intro conjI)
  show "''Total_Calls'' \<in> set (field_names CallsForLSTool)"
    by (simp add: field_names_simps CallsForLSTool_fields_def)
  show "''Leads'' \<in> set (field_names OpportunitiesForLSTool)"
    by (simp add: field_names_simps OpportunitiesForLSTool_fields_def)
  show "CallsForLSTool_run ''Total_Calls'' = Inr ''No information found for query: total_calls''"
    by code_simp
  show "OpportunitiesForLSTool_run ''Leads'' = Inr ''No information found for query: leads''"
    by code_simp
qed

text \<open>
  C2. An attribute that a table has is not always returned. The reviews provider's
  \<^verbatim>\<open>table_info\<close> holds \<^verbatim>\<open>full_query\<close>, yet its \<^verbatim>\<open>_run\<close> has no branch for
  attribute topics and answers \<^verbatim>\<open>"full_query"\<close> with the no-information message;
  the calls provider, for the same topic, returns the stored text.
\<close>

theorem attribute_present_but_not_returned:
  "getitem ReviewsForLSTool_table_info ''full_query'' = Inr (Str ReviewsForLSTool_full_query)
   \<and> ReviewsForLSTool_run ''full_query'' = Inr ''No information found for query: full_query''
   \<and> CallsForLSTool_run ''full_query'' = Inr (''Full_query: '' @ CallsForLSTool_full_query)"
proof (intro conjI)
  show "getitem ReviewsForLSTool_table_info ''full_query'' = Inr (Str ReviewsForLSTool_full_query)"
    by (rule ReviewsForLSTool_getitem_full_query)
  show "ReviewsForLSTool_run ''full_query'' = Inr ''No information found for query: full_query''"
    by code_simp
  have l: "lower ''full_query'' = ''full_query''" by code_simp
  have c: "capitalize ''full_query'' = ''Full_query''" by code_simp
  have f: "\<not> contains CallsForLSTool_fields ''full_query''"
    by (simp add: contains_def CallsForLSTool_fields_def)
  show "CallsForLSTool_run ''full_query'' = Inr (''Full_query: '' @ CallsForLSTool_full_query)"
    by (simp add: CallsForLSTool_run_def l c f CallsForLSTool_getitem_fields
        CallsForLSTool_getitem_full_query del: capitalize.simps)
qed

text \<open>
  The reviews table has no time periods, and asking for them returns a message, not an
  exception.
\<close>

lemma ReviewsForLSTool_time_periods:
  "ReviewsForLSTool_run ''time_periods'' = Inr ''No information found for query: time_periods''"
  by code_simp

lemma provider_full_query_has_newline: "CHR 0x0A \<in> set (provider_full_query p)"
  by (cases p) (simp_all add:
      CallsForLSTool_full_query_has_newline
      AdExpenseDataForLSTool_full_query_has_newline
      ReviewsForLSTool_full_query_has_newline
      OpportunitiesForLSTool_full_query_has_newline
      AdExpenseDataMonthlyForLSTool_full_query_has_newline
      OpportunitiesMonthlyForLSTool_full_query_has_newline
      CallsMonthlyForLSTool_full_query_has_newline)

text \<open>
  C5, as the spec states it, fails: the answer to \<^verbatim>\<open>"structure"\<close> is
  \<^verbatim>\<open>str(self.table_info)\<close>, which renders every string by \<^verbatim>\<open>repr\<close>. The stored
  query text of the reviews provider holds line breaks and the answer holds none, so the
  text does not occur in the answer character for character.
\<close>

theorem structure_not_verbatim_counterexample:
  "getitem ReviewsForLSTool_table_info ''full_query'' = Inr (Str ReviewsForLSTool_full_query)
   \<and> ReviewsForLSTool_run ''structure'' = Inr (repr_dict repr_value ReviewsForLSTool_table_info)
   \<and> \<not> sublist ReviewsForLSTool_full_query (repr_dict repr_value ReviewsForLSTool_table_info)"
proof (intro conjI)
  show "getitem ReviewsForLSTool_table_info ''full_query'' = Inr (Str ReviewsForLSTool_full_query)"
    by (rule ReviewsForLSTool_getitem_full_query)
  show "ReviewsForLSTool_run ''structure'' = Inr (repr_dict repr_value ReviewsForLSTool_table_info)"
    by (rule ReviewsForLSTool_run_structure)
  show "\<not> sublist ReviewsForLSTool_full_query (repr_dict repr_value ReviewsForLSTool_table_info)"
    using ReviewsForLSTool_full_query_has_newline newline_notin_structure set_mono_sublist
    by blast
qed

text \<open>
  C5, amended. For every provider the answer to \<^verbatim>\<open>"structure"\<close> is the rendering of
  the whole \<^verbatim>\<open>table_info\<close> dictionary, and it contains the \<^verbatim>\<open>repr\<close> form of
  the stored \<^verbatim>\<open>full_query\<close> text: the text in quotes, with each line break written
  as backslash, n and the quote character and the backslash escaped. The stored text
  itself, which has line breaks in every provider, does not occur in the answer
  character for character.
\<close>

theorem structure_contains_repr_of_full_query:
  "getitem (provider_table_info p) ''full_query'' = Inr (Str (provider_full_query p))
   \<and> provider_run p ''structure'' = Inr (repr_dict repr_value (provider_table_info p))
   \<and> sublist (repr_str (provider_full_query p)) (repr_dict repr_value (provider_table_info p))
   \<and> \<not> sublist (provider_full_query p) (repr_dict repr_value (provider_table_info p))"
proof (intro conjI)
  show "getitem (provider_table_info p) ''full_query'' = Inr (Str (provider_full_query p))"
    by (cases p) (simp_all add:
      CallsForLSTool_getitem_full_query
      AdExpenseDataForLSTool_getitem_full_query
      ReviewsForLSTool_getitem_full_query
      OpportunitiesForLSTool_getitem_full_query
      AdExpenseDataMonthlyForLSTool_getitem_full_query
      OpportunitiesMonthlyForLSTool_getitem_full_query
      CallsMonthlyForLSTool_getitem_full_query)
  show "provider_run p ''structure'' = Inr (repr_dict repr_value (provider_table_info p))"
    by (cases p) (simp_all add:
      CallsForLSTool_run_structure
      AdExpenseDataForLSTool_run_structure
      ReviewsForLSTool_run_structure
      OpportunitiesForLSTool_run_structure
      AdExpenseDataMonthlyForLSTool_run_structure
      OpportunitiesMonthlyForLSTool_run_structure
      CallsMonthlyForLSTool_run_structure)
  have "(''full_query'', Str (provider_full_query p)) \<in> set (provider_table_info p)"
    by (cases p) (simp_all add:
      CallsForLSTool_full_query_stored
      AdExpenseDataForLSTool_full_query_stored
      ReviewsForLSTool_full_query_stored
      OpportunitiesForLSTool_full_query_stored
      AdExpenseDataMonthlyForLSTool_full_query_stored
      OpportunitiesMonthlyForLSTool_full_query_stored
      CallsMonthlyForLSTool_full_query_stored)
  from sublist_repr_dict[OF this, of repr_value]
  show "sublist (repr_str (provider_full_query p)) (repr_dict repr_value (provider_table_info p))"
    by simp
  show "\<not> sublist (provider_full_query p) (repr_dict repr_value (provider_table_info p))"
    using provider_full_query_has_newline[of p] newline_notin_structure set_mono_sublist
    by blast
qed

text \<open>
  C6. A topic outside the vocabulary gets a diagnostic and no exception: when the
  lower-cased topic is not \<^verbatim>\<open>"structure"\<close>, not a key of \<^verbatim>\<open>fields\<close> and none of
  the six attribute keywords, every provider returns \<^verbatim>\<open>"No information found for
  query: "\<close> followed by the lower-cased topic.
\<close>

theorem provider_run_unknown_topic:
  assumes "lower topic \<noteq> ''structure''"
    and "lower topic \<notin> set (field_names p)"
    and "lower topic \<notin> set attribute_topics"
  shows "provider_run p topic = Inr (''No information found for query: '' @ lower topic)"
  using assms
  by (cases p) (simp_all add: field_names_simps
      CallsForLSTool_run_unknown
      AdExpenseDataForLSTool_run_unknown
      ReviewsForLSTool_run_unknown
      OpportunitiesForLSTool_run_unknown
      AdExpenseDataMonthlyForLSTool_run_unknown
      OpportunitiesMonthlyForLSTool_run_unknown
      CallsMonthlyForLSTool_run_unknown)

theorem provider_run_unknown_topic_witness:
  "lower ''Budget?'' \<noteq> ''structure''
   \<and> lower ''Budget?'' \<notin> set (field_names OpportunitiesForLSTool)
   \<and> lower ''Budget?'' \<notin> set attribute_topics
   \<and> provider_run OpportunitiesForLSTool ''Budget?'' = Inr ''No information found for query: budget?''"
proof -
  have l: "lower ''Budget?'' = ''budget?''" by code_simp
  have h1: "lower ''Budget?'' \<noteq> ''structure''" by (simp add: l)
  have h2: "lower ''Budget?'' \<notin> set (field_names OpportunitiesForLSTool)"
    by (simp add: l field_names_simps OpportunitiesForLSTool_fields_def)
  have h3: "lower ''Budget?'' \<notin> set attribute_topics"
    by (simp add: l attribute_topics_def)
  from provider_run_unknown_topic[OF h1 h2 h3] h1 h2 h3 show ?thesis
    by (simp add: l)
qed

section \<open>The agent controller\<close>

text \<open>
  C8. When the warehouse client can be built, \<^verbatim>\<open>setup_agent\<close> returns an agent whose
  model client has temperature 0 and whose loop stops after at most 5 iterations. It
  binds nine tools, in this order: the query executor, the schema catalog, and one tool
  for each of the seven providers, each calling that component's own operation.
\<close>

theorem setup_agent_configuration:
  assumes "make_client = Inr c"
  shows "\<exists>a. setup_agent make_client openai_api_key = Inr a
     \<and> temperature (agent_llm a) = 0
     \<and> max_iterations a = 5
     \<and> length (tools a) = 9
     \<and> map tool_name (tools a) =
         [''BigQuery'', ''Data Schema Roadmap'', ''Calls_ForLS'', ''Opportunities_ForLS'',
          ''Ad_Expense_Data_ForLS'', ''Reviews_ForLS'', ''Ad_Expense_Data_Monthly_ForLS'',
          ''Opportunities_Monthly_ForLS'', ''Calls_Monthly_ForLS'']
     \<and> map (\<lambda>t. func t query) (tools a) =
         [execute_bigquery c query,
          fst (DataSchemaRoadmapTool_run DataSchemaRoadmapTool_init query),
          CallsForLSTool_run query, OpportunitiesForLSTool_run query,
          AdExpenseDataForLSTool_run query, ReviewsForLSTool_run query,
          AdExpenseDataMonthlyForLSTool_run query, OpportunitiesMonthlyForLSTool_run query,
          CallsMonthlyForLSTool_run query]"
  using assms by (simp add: setup_agent_def)

theorem setup_agent_configuration_witness:
  "\<exists>a. setup_agent (Inr \<lparr>client_query = (\<lambda>q. Inr ()), job_result = (\<lambda>j. Inr [])\<rparr>) ''sk-test'' = Inr a
     \<and> temperature (agent_llm a) = 0 \<and> max_iterations a = 5 \<and> length (tools a) = 9"
  using setup_agent_configuration[of
      "Inr \<lparr>client_query = (\<lambda>q. Inr ()), job_result = (\<lambda>j. Inr [])\<rparr>"
      "\<lparr>client_query = (\<lambda>q. Inr ()), job_result = (\<lambda>j. Inr [])\<rparr>" "''sk-test''" "[]"]
  by blast

text \<open>A failure to build the client is the failure of the setup.\<close>

lemma setup_agent_credential_fault: "setup_agent (Inl e) openai_api_key = Inl e"
  by (simp add: setup_agent_def)





end
